theory Spec2Isabelle
  imports Main
begin

section \<open>Shared types (src/types.ts)\<close>

datatype ScanStatus = IDLE | SCANNING | ANALYZING | SUCCESS | NOT_FOUND | ERROR

datatype OperatingMode = BYOK | FREE_AD_SUPPORTED | PRO

datatype ErrorCode =
    API_KEY_INVALID | CONSENT_REQUIRED
  | COMMUNICATION_ERROR | CLICK_FAILED | HTML_FETCH_FAILED
  | SCRIPT_INJECTION_FAILED | CONFIG_FETCH_FAILED
  | GENERIC_ANALYSIS_ERROR

text \<open>
  A thrown value. \<open>AppError message code\<close> is the class \<open>AppError\<close> with its two
  subclasses (\<open>ApiKeyError\<close>, \<open>ConsentRequiredError\<close>, which only fix the code);
  \<open>JsError message\<close> is any other \<open>Error\<close> (a rejected platform promise, a
  \<open>SyntaxError\<close> of \<open>JSON.parse\<close>), for which \<open>instanceof AppError\<close> is false.
\<close>

datatype thrown = AppError string ErrorCode | JsError string

definition ApiKeyError :: "string \<Rightarrow> thrown" where
  "ApiKeyError m = AppError m API_KEY_INVALID"

definition ConsentRequiredError :: "string \<Rightarrow> thrown" where
  "ConsentRequiredError m = AppError m CONSENT_REQUIRED"

record ErrorPayload =
  code :: ErrorCode
  message :: string

text \<open>
  \<open>StatusUpdatePayload\<close>: \<open>url\<close> and \<open>error\<close> are optional fields; \<open>None\<close> is
  \<open>undefined\<close>.
\<close>

record StatusUpdatePayload =
  status :: ScanStatus
  url :: "string option"
  error :: "ErrorPayload option"

text \<open>
  \<open>Partial<StatusUpdatePayload>\<close>: each key may be missing (\<open>None\<close>) or present;
  a present optional key may hold \<open>undefined\<close> (\<open>Some None\<close>), as in
  \<open>{ ..., error: undefined }\<close>.
\<close>

record StatusPatch =
  p_status :: "ScanStatus option"
  p_url :: "string option option"
  p_error :: "ErrorPayload option option"

section \<open>JSON values and the platform's text primitives\<close>

text \<open>
  A JavaScript string is a sequence of 16-bit code units. The model writes the strings
  whose content it never looks into, and the text handed to \<open>JSON.parse\<close>, as
  \<open>string\<close>: the code units below 256. A string that \<open>JSON.parse\<close> produces can
  hold any code unit, through an escape \<open>\u....\<close> in plain ASCII text, so those are
  lists of code units; \<open>ustr\<close> is a string of the first kind read as the second.
\<close>

type_synonym ustring = "nat list"

definition ustr :: "string \<Rightarrow> ustring" where
  "ustr s = map of_char s"

text \<open>
  A value produced by \<open>JSON.parse\<close> (strings of code units) or by
  \<open>response.json()\<close> (as the environment hands it over). A number keeps its lexeme; an
  object keeps its members in source order.
\<close>

datatype 's json =
    JNull | JBool bool | JNum string | JStr 's
  | JArr "'s json list" | JObj "('s \<times> 's json) list"

text \<open>
  Property read \<open>v.k\<close> on a non-null JSON value, for a key that is not an
  array index or a built-in property name: \<open>None\<close> is \<open>undefined\<close>. The last
  member of an object with a repeated key wins.
\<close>

fun get_prop :: "'s json \<Rightarrow> 's \<Rightarrow> 's json option" where
  "get_prop (JObj kvs) k = map_of (rev kvs) k"
| "get_prop _ k = None"

text \<open>Truthiness of a JSON value (a number is falsy when all its mantissa digits are 0).\<close>

fun truthy :: "'a list json \<Rightarrow> bool" where
  "truthy JNull = False"
| "truthy (JBool b) = b"
| "truthy (JNum l) =
     (\<exists>c \<in> set (takeWhile (\<lambda>c. c \<noteq> CHR ''e'' \<and> c \<noteq> CHR ''E'') l).
        c \<in> set ''123456789'')"
| "truthy (JStr s) = (s \<noteq> [])"
| "truthy (JArr _) = True"
| "truthy (JObj _) = True"

text \<open>\<open>String.prototype.includes\<close>.\<close>

fun str_includes :: "string \<Rightarrow> string \<Rightarrow> bool" where
  "str_includes [] n = (n = [])"
| "str_includes (c # cs) n = (take (length n) (c # cs) = n \<or> str_includes cs n)"

text \<open>Decimal rendering of a number in a template literal.\<close>

function show_nat :: "nat \<Rightarrow> string" where
  "show_nat n =
     (if n < 10 then [char_of (48 + n)]
      else show_nat (n div 10) @ [char_of (48 + n mod 10)])"
  by pat_completeness auto
termination
  by (relation "measure id") auto

section \<open>The environment and the state of the service worker\<close>

text \<open>\<open>new GoogleGenAI({ apiKey })\<close>: a client is determined by the key it is bound to.\<close>

datatype GoogleGenAI = GoogleGenAI (client_key: string)

record ApiKeyCache =
  key :: string
  timestamp :: int

text \<open>
  The JSON body of an analytics POST, without its timestamp: the event name, the
  payload of the caller and the \<open>status\<close> word added by the tracker.
\<close>

record AnalyticsBody =
  a_event :: string
  a_status :: string
  a_url :: string
  a_banner_html_context :: "string option"
  a_selector :: "ustring option"
  a_reason :: "string option"

text \<open>
  The calls that leave the service worker, in the order they are made. The last two
  constructors mark the entry into the two repository functions that properties
  speak of by name.
\<close>

datatype event =
    SyncGet
  | SessionGetCentralKey
  | FetchConfig
  | SessionSetCentralKey
  | SessionSetTab nat StatusUpdatePayload
  | Broadcast StatusUpdatePayload
  | TabsQuery
  | ExtractHtml nat
  | ClickSelector nat ustring
  | GenerateContent string string
  | PostAnalytics AnalyticsBody
  | UpdateStatus nat StatusUpdatePayload
  | FindAcceptButtonSelector string

text \<open>\<open>chrome.storage.sync\<close>, typed as the savers of settingsService write it.\<close>

record SyncStorage =
  operatingMode :: "OperatingMode option"
  dataCollectionConsent :: "bool option"
  apiKey :: "string option"

datatype fetch_result =
    FetchRejected string
  | FetchResponse bool nat "string json option"

datatype generate_result = GenerateRejected string | GenerateText string

record ClickResult =
  success :: bool
  reason :: string

datatype 'a script_result = ScriptRejected string | ScriptResult "'a option"

text \<open>A \<open>chrome.tabs.Tab\<close>, as far as the code reads it.\<close>

record Tab =
  tab_id :: "nat option"
  tab_url :: "string option"

text \<open>
  Everything the code does not decide itself. Each answer of the platform is a function
  of the calls made so far, so that two calls of the same API inside one run may be
  answered differently. \<open>page_html\<close> and \<open>click_page\<close> are the two
  \<open>chrome.scripting.executeScript\<close> calls with \<open>injectionResults?.[0]?.result\<close>
  already taken; \<open>prompt_text\<close> is \<open>FIND_ACCEPT_BUTTON_PROMPT\<close> and
  \<open>syntaxErrorMessage\<close> the message the engine gives the \<open>SyntaxError\<close> of
  \<open>JSON.parse\<close>. The outcome of a status broadcast and of an analytics POST is not
  part of the environment: the code swallows both.
\<close>

record env =
  sync_lastError :: "event list \<Rightarrow> string option"
  atob :: "string \<Rightarrow> string option"
  dev_central_key :: "string option"
  session_get_error :: "event list \<Rightarrow> bool"
  session_set_error :: "event list \<Rightarrow> string option"
  now :: "event list \<Rightarrow> int"
  config_response :: "event list \<Rightarrow> fetch_result"
  generateContent :: "event list \<Rightarrow> string \<Rightarrow> string \<Rightarrow> generate_result"
  syntaxErrorMessage :: "string \<Rightarrow> string"
  prompt_text :: string
  page_html :: "event list \<Rightarrow> string script_result"
  click_page :: "event list \<Rightarrow> ustring \<Rightarrow> ClickResult script_result"
  active_tab :: "event list \<Rightarrow> Tab option"

record world =
  sync :: SyncStorage
  tabStates :: "nat \<rightharpoonup> StatusUpdatePayload"
  session_tabs :: "nat \<rightharpoonup> StatusUpdatePayload"
  session_central :: "ApiKeyCache option"
  cachedAiInstance :: "GoogleGenAI option"
  cachedSettingsKey :: "string option"
  trace :: "event list"

definition emit :: "event \<Rightarrow> world \<Rightarrow> world" where
  "emit e w = w\<lparr>trace := trace w @ [e]\<rparr>"

section \<open>settingsService\<close>

record UserSettings =
  mode :: OperatingMode
  consent :: bool
  userKey :: "string option"

definition decode :: "env \<Rightarrow> string \<Rightarrow> string" where
  "decode en encodedData =
     (case atob en encodedData of Some d \<Rightarrow> d | None \<Rightarrow> encodedData)"

text \<open>
  The callback of \<open>chrome.storage.sync.get\<close>: the defaults of \<open>getSettings\<close>.
  \<open>result[OPERATING_MODE] || FREE_AD_SUPPORTED\<close>, \<open>!!result[DATA_COLLECTION_CONSENT]\<close>,
  \<open>userKey ? decode(userKey) : undefined\<close>.
\<close>

definition readSettings :: "env \<Rightarrow> SyncStorage \<Rightarrow> UserSettings" where
  "readSettings en result =
     \<lparr>mode = (case operatingMode result of
                Some m \<Rightarrow> m | None \<Rightarrow> FREE_AD_SUPPORTED),
      consent = (dataCollectionConsent result = Some True),
      userKey = (case apiKey result of
                   None \<Rightarrow> None
                 | Some k \<Rightarrow> if k = [] then None else Some (decode en k))\<rparr>"

definition getSettings :: "env \<Rightarrow> world \<Rightarrow> (thrown + UserSettings) \<times> world" where
  "getSettings en w =
     (case sync_lastError en (trace w) of
        Some m \<Rightarrow> (Inl (JsError m), emit SyncGet w)
      | None \<Rightarrow> (Inr (readSettings en (sync w)), emit SyncGet w))"

section \<open>configService\<close>

definition CENTRAL_API_KEY_TTL_MS :: int where
  "CENTRAL_API_KEY_TTL_MS = 60 * 60 * 1000"

definition config_fetch_failed :: thrown where
  "config_fetch_failed =
     AppError ''Could not retrieve the central API key for the service.'' CONFIG_FETCH_FAILED"

definition invalid_key_format :: thrown where
  "invalid_key_format =
     AppError ''Invalid API key format received from config server.'' CONFIG_FETCH_FAILED"

text \<open>
  Step 2 of \<open>getCentralApiKey\<close>: the \<open>try\<close> block around \<open>fetch(API_URLS.CONFIG)\<close>.
  Whatever is thrown inside that is not an \<open>AppError\<close> (a rejected fetch, a body that
  is not JSON, a property read on \<open>null\<close>, a rejected session write) leaves as
  \<open>config_fetch_failed\<close>.
\<close>

definition fetchCentralApiKey :: "env \<Rightarrow> world \<Rightarrow> (thrown + string) \<times> world" where
  "fetchCentralApiKey en w =
     (let w1 = emit FetchConfig w in
      case config_response en (trace w) of
        FetchRejected m \<Rightarrow> (Inl config_fetch_failed, w1)
      | FetchResponse ok st body \<Rightarrow>
          if \<not> ok then
            (Inl (AppError (''Failed to fetch config, status: '' @ show_nat st)
                    CONFIG_FETCH_FAILED), w1)
          else
            (case body of
               None \<Rightarrow> (Inl config_fetch_failed, w1)
             | Some JNull \<Rightarrow> (Inl config_fetch_failed, w1)
             | Some config \<Rightarrow>
                 (case get_prop config ''apiKey'' of
                    Some (JStr k) \<Rightarrow>
                      if k = [] then (Inl invalid_key_format, w1)
                      else
                        (let w2 = emit SessionSetCentralKey w1 in
                         case session_set_error en (trace w1) of
                           Some m \<Rightarrow> (Inl config_fetch_failed, w2)
                         | None \<Rightarrow>
                             (Inr k,
                              w2\<lparr>session_central :=
                                   Some \<lparr>key = k, timestamp = now en (trace w1)\<rparr>\<rparr>))
                  | _ \<Rightarrow> (Inl invalid_key_format, w1))))"

text \<open>
  Step 1 of \<open>getCentralApiKey\<close>, then step 2: a fresh entry of the session cache is
  returned without a fetch; a failed read of the cache is logged and the fetch follows.
\<close>

definition cachedOrFetchedKey :: "env \<Rightarrow> world \<Rightarrow> (thrown + string) \<times> world" where
  "cachedOrFetchedKey en w =
     (let w1 = emit SessionGetCentralKey w in
      if session_get_error en (trace w) then fetchCentralApiKey en w1
      else
        (case session_central w of
           Some entry \<Rightarrow>
             if now en (trace w1) - timestamp entry < CENTRAL_API_KEY_TTL_MS
             then (Inr (key entry), w1)
             else fetchCentralApiKey en w1
         | None \<Rightarrow> fetchCentralApiKey en w1))"

text \<open>
  \<open>dev_central_key\<close> is \<open>import.meta.env.VITE_CENTRAL_API_KEY\<close> when
  \<open>import.meta.env.DEV\<close> is set, \<open>None\<close> otherwise; the override needs it truthy.
\<close>

definition getCentralApiKey :: "env \<Rightarrow> world \<Rightarrow> (thrown + string) \<times> world" where
  "getCentralApiKey en w =
     (case dev_central_key en of
        Some k \<Rightarrow> if k \<noteq> [] then (Inr k, w) else cachedOrFetchedKey en w
      | None \<Rightarrow> cachedOrFetchedKey en w)"

section \<open>geminiService: the client cache\<close>

fun mode_str :: "OperatingMode \<Rightarrow> string" where
  "mode_str BYOK = ''BYOK''"
| "mode_str FREE_AD_SUPPORTED = ''FREE_AD_SUPPORTED''"
| "mode_str PRO = ''PRO''"

definition bool_str :: "bool \<Rightarrow> string" where
  "bool_str b = (if b then ''true'' else ''false'')"

text \<open>
  The template literal \<open>`${settings.mode}:${settings.consent}:${k}`\<close>; an
  \<open>undefined\<close> key is rendered as the word.
\<close>

definition settingsKey :: "OperatingMode \<Rightarrow> bool \<Rightarrow> string option \<Rightarrow> string" where
  "settingsKey m c k =
     mode_str m @ '':'' @ bool_str c @ '':'' @
     (case k of None \<Rightarrow> ''undefined'' | Some s \<Rightarrow> s)"


text \<open>\<open>!apiKey\<close> for \<open>apiKey: string | undefined\<close>.\<close>

definition no_key :: "string option \<Rightarrow> bool" where
  "no_key k = (k = None \<or> k = Some [])"

text \<open>\<open>cachedAiInstance && cachedSettingsKey === k\<close>, returning the cached client.\<close>

definition cache_hit :: "world \<Rightarrow> string \<Rightarrow> GoogleGenAI option" where
  "cache_hit w k =
     (case cachedAiInstance w of
        None \<Rightarrow> None
      | Some ai \<Rightarrow> if cachedSettingsKey w = Some k then Some ai else None)"

text \<open>The second \<open>switch\<close> of \<open>getAiInstance\<close>: validate the settings and build the client.\<close>

definition createAiInstance :: "UserSettings \<Rightarrow> string option \<Rightarrow> thrown + GoogleGenAI" where
  "createAiInstance settings k =
     (case mode settings of
        PRO \<Rightarrow>
          if no_key k then
            Inl (AppError ''Central API Key could not be fetched for the PRO service.''
                   CONFIG_FETCH_FAILED)
          else Inr (GoogleGenAI (the k))
      | FREE_AD_SUPPORTED \<Rightarrow>
          if \<not> consent settings then
            Inl (ConsentRequiredError
                   ''For the free service, consent is required. Please enable it in the extension's options.'')
          else if no_key k then
            Inl (AppError ''Central API Key could not be fetched for the free service.''
                   CONFIG_FETCH_FAILED)
          else Inr (GoogleGenAI (the k))
      | BYOK \<Rightarrow>
          if no_key k then
            Inl (ApiKeyError ''API Key not found. Please set it in the extension options.'')
          else Inr (GoogleGenAI (the k)))"

text \<open>The first \<open>switch\<close>: which key to use.\<close>

definition resolveApiKey ::
  "env \<Rightarrow> UserSettings \<Rightarrow> world \<Rightarrow> (thrown + string option) \<times> world" where
  "resolveApiKey en settings w =
     (case mode settings of
        BYOK \<Rightarrow> (Inr (userKey settings), w)
      | _ \<Rightarrow>
          (case getCentralApiKey en w of
             (Inl e, w') \<Rightarrow> (Inl e, w')
           | (Inr k, w') \<Rightarrow> (Inr (Some k), w')))"

definition getAiInstance :: "env \<Rightarrow> world \<Rightarrow> (thrown + GoogleGenAI) \<times> world" where
  "getAiInstance en w =
     (case getSettings en w of
        (Inl e, w1) \<Rightarrow> (Inl e, w1)
      | (Inr settings, w1) \<Rightarrow>
          (let keySource = (if mode settings = BYOK then userKey settings
                            else Some ''central'');
               currentSettingsKey =
                 settingsKey (mode settings) (consent settings) keySource
           in case cache_hit w1 currentSettingsKey of
                Some ai \<Rightarrow> (Inr ai, w1)
              | None \<Rightarrow>
                  (case resolveApiKey en settings w1 of
                     (Inl e, w2) \<Rightarrow> (Inl e, w2)
                   | (Inr k, w2) \<Rightarrow>
                       (let finalSettingsKey =
                              settingsKey (mode settings) (consent settings) k
                        in case cache_hit w2 finalSettingsKey of
                             Some ai \<Rightarrow> (Inr ai, w2)
                           | None \<Rightarrow>
                               (case createAiInstance settings k of
                                  Inl e \<Rightarrow> (Inl e, w2)
                                | Inr aiInstance \<Rightarrow>
                                    (Inr aiInstance,
                                     w2\<lparr>cachedAiInstance := Some aiInstance,
                                        cachedSettingsKey := Some finalSettingsKey\<rparr>))))))"

definition testApiKey :: "env \<Rightarrow> world \<Rightarrow> string \<Rightarrow> (thrown + unit) \<times> world" where
  "testApiKey en w k =
     (if k = [] then (Inl (ApiKeyError ''API Key cannot be empty.''), w)
      else
        (let w1 = emit (GenerateContent k ''test'') w in
         case generateContent en (trace w) k ''test'' of
           GenerateRejected m \<Rightarrow>
             (Inl (ApiKeyError ''This API Key appears to be invalid or lacks permissions.''),
              w1)
         | GenerateText t \<Rightarrow> (Inr (), w1)))"

section \<open>\<open>JSON.parse\<close>\<close>

text \<open>
  The platform's parser, modelled from the JSON grammar (ECMA-404) over the 256
  characters of \<open>char\<close>: a lexer, then a pushdown recogniser that builds the value.
  \<open>None\<close> is the \<open>SyntaxError\<close>. The text is a \<open>string\<close>; the strings and keys
  of the value are lists of code units: a character of the text stands for its own
  code, an escape \<open>\u....\<close> for the code its four hexadecimal digits spell.
\<close>

datatype token =
    TLBrace | TRBrace | TLBrack | TRBrack | TColon | TComma
  | TString ustring | TNumber string | TTrue | TFalse | TNull

definition is_digit :: "char \<Rightarrow> bool" where
  "is_digit c = (48 \<le> (of_char c :: nat) \<and> (of_char c :: nat) \<le> 57)"

definition is_json_ws :: "char \<Rightarrow> bool" where
  "is_json_ws c = (of_char c \<in> {9, 10, 13, 32 :: nat})"

definition hex_val :: "char \<Rightarrow> nat option" where
  "hex_val c =
     (let n = (of_char c :: nat) in
      if 48 \<le> n \<and> n \<le> 57 then Some (n - 48)
      else if 65 \<le> n \<and> n \<le> 70 then Some (n - 55)
      else if 97 \<le> n \<and> n \<le> 102 then Some (n - 87)
      else None)"

definition unescape :: "char \<Rightarrow> char option" where
  "unescape e =
     (if e = CHR 0x22 \<or> e = CHR 0x5C \<or> e = CHR ''/'' then Some e
      else if e = CHR ''b'' then Some (CHR 0x08)
      else if e = CHR ''f'' then Some (CHR 0x0C)
      else if e = CHR ''n'' then Some (CHR 0x0A)
      else if e = CHR ''r'' then Some (CHR 0x0D)
      else if e = CHR ''t'' then Some (CHR 0x09)
      else None)"

datatype sstate = SNormal | SEscape | SHex nat nat

fun lex_string :: "sstate \<Rightarrow> string \<Rightarrow> ustring \<Rightarrow> (ustring \<times> string) option" where
  "lex_string st [] acc = None"
| "lex_string SNormal (c # cs) acc =
     (if c = CHR 0x22 then Some (rev acc, cs)
      else if c = CHR 0x5C then lex_string SEscape cs acc
      else if (of_char c :: nat) < 32 then None
      else lex_string SNormal cs (of_char c # acc))"
| "lex_string SEscape (e # cs) acc =
     (if e = CHR ''u'' then lex_string (SHex 4 0) cs acc
      else
        (case unescape e of
           Some x \<Rightarrow> lex_string SNormal cs (of_char x # acc)
         | None \<Rightarrow> None))"
| "lex_string (SHex n v) (h # cs) acc =
     (case hex_val h of
        None \<Rightarrow> None
      | Some d \<Rightarrow>
          if n \<le> 1 then lex_string SNormal cs ((v * 16 + d) # acc)
          else lex_string (SHex (n - 1) (v * 16 + d)) cs acc)"

definition valid_exp :: "string \<Rightarrow> bool" where
  "valid_exp r =
     (case r of
        [] \<Rightarrow> True
      | c # cs \<Rightarrow>
          (c = CHR ''e'' \<or> c = CHR ''E'') \<and>
          (let ds = (case cs of
                       [] \<Rightarrow> []
                     | s # t \<Rightarrow> if s = CHR ''+'' \<or> s = CHR ''-'' then t else cs)
           in ds \<noteq> [] \<and> list_all is_digit ds))"

definition valid_frac :: "string \<Rightarrow> bool" where
  "valid_frac r =
     (case r of
        [] \<Rightarrow> True
      | c # cs \<Rightarrow>
          if c = CHR ''.'' then
            takeWhile is_digit cs \<noteq> [] \<and> valid_exp (dropWhile is_digit cs)
          else valid_exp r)"

definition valid_number :: "string \<Rightarrow> bool" where
  "valid_number l =
     (let u = (case l of [] \<Rightarrow> [] | c # cs \<Rightarrow> if c = CHR ''-'' then cs else l);
          ip = takeWhile is_digit u
      in ip \<noteq> [] \<and> (hd ip \<noteq> CHR ''0'' \<or> length ip = 1) \<and>
         valid_frac (dropWhile is_digit u))"

definition is_num_char :: "char \<Rightarrow> bool" where
  "is_num_char c =
     (is_digit c \<or> c = CHR ''-'' \<or> c = CHR ''+'' \<or> c = CHR ''.'' \<or>
      c = CHR ''e'' \<or> c = CHR ''E'')"

definition cons_tok :: "token \<Rightarrow> token list option \<Rightarrow> token list option" where
  "cons_tok t r = map_option (Cons t) r"

lemma lex_string_rest: "lex_string st s acc = Some (t, r) \<Longrightarrow> length r < Suc (length s)"
  by (induction st s acc rule: lex_string.induct)
     (auto split: if_splits option.splits)

function lex :: "string \<Rightarrow> token list option" where
  "lex [] = Some []"
| "lex (c # cs) =
     (if is_json_ws c then lex cs
      else if c = CHR ''{'' then cons_tok TLBrace (lex cs)
      else if c = CHR ''}'' then cons_tok TRBrace (lex cs)
      else if c = CHR ''['' then cons_tok TLBrack (lex cs)
      else if c = CHR '']'' then cons_tok TRBrack (lex cs)
      else if c = CHR '':'' then cons_tok TColon (lex cs)
      else if c = CHR '','' then cons_tok TComma (lex cs)
      else if c = CHR 0x22 then
        (case lex_string SNormal cs [] of
           None \<Rightarrow> None
         | Some (s, rest) \<Rightarrow> cons_tok (TString s) (lex rest))
      else if c = CHR ''-'' \<or> is_digit c then
        (if valid_number (c # takeWhile is_num_char cs)
         then cons_tok (TNumber (c # takeWhile is_num_char cs)) (lex (dropWhile is_num_char cs))
         else None)
      else if take 4 (c # cs) = ''true'' then cons_tok TTrue (lex (drop 3 cs))
      else if take 5 (c # cs) = ''false'' then cons_tok TFalse (lex (drop 4 cs))
      else if take 4 (c # cs) = ''null'' then cons_tok TNull (lex (drop 3 cs))
      else None)"
  by pat_completeness auto
termination
proof (relation "measure length")
  fix c cs x2 x y
  assume "lex_string SNormal cs [] = Some x2" "(x, y) = x2"
  then show "(y, c # cs) \<in> measure length"
    using lex_string_rest [of SNormal cs "[]" x y] by simp
qed (auto simp: length_dropWhile_le less_Suc_eq_le)

datatype frame = FArr "ustring json list" | FObj "(ustring \<times> ustring json) list" ustring

datatype pstate =
    PValue | PArrFirst | PAfterElem | PObjFirst | PKey | PColon | PAfterMember
  | PDone "ustring json"

fun push_value :: "ustring json \<Rightarrow> frame list \<Rightarrow> pstate \<times> frame list" where
  "push_value v [] = (PDone v, [])"
| "push_value v (FArr xs # st) = (PAfterElem, FArr (xs @ [v]) # st)"
| "push_value v (FObj kvs k # st) = (PAfterMember, FObj (kvs @ [(k, v)]) k # st)"

fun begin_value :: "token \<Rightarrow> frame list \<Rightarrow> (pstate \<times> frame list) option" where
  "begin_value TLBrack st = Some (PArrFirst, FArr [] # st)"
| "begin_value TLBrace st = Some (PObjFirst, FObj [] [] # st)"
| "begin_value (TString s) st = Some (push_value (JStr s) st)"
| "begin_value (TNumber l) st = Some (push_value (JNum l) st)"
| "begin_value TTrue st = Some (push_value (JBool True) st)"
| "begin_value TFalse st = Some (push_value (JBool False) st)"
| "begin_value TNull st = Some (push_value JNull st)"
| "begin_value _ st = None"

fun close_array :: "frame list \<Rightarrow> (pstate \<times> frame list) option" where
  "close_array (FArr xs # st) = Some (push_value (JArr xs) st)"
| "close_array _ = None"

fun close_object :: "frame list \<Rightarrow> (pstate \<times> frame list) option" where
  "close_object (FObj kvs k # st) = Some (push_value (JObj kvs) st)"
| "close_object _ = None"

fun member_key :: "token \<Rightarrow> frame list \<Rightarrow> (pstate \<times> frame list) option" where
  "member_key (TString k) (FObj kvs k0 # st) = Some (PColon, FObj kvs k # st)"
| "member_key _ _ = None"

fun pstep :: "pstate \<Rightarrow> frame list \<Rightarrow> token \<Rightarrow> (pstate \<times> frame list) option" where
  "pstep PValue st t = begin_value t st"
| "pstep PArrFirst st t = (if t = TRBrack then close_array st else begin_value t st)"
| "pstep PAfterElem st t =
     (if t = TComma then Some (PValue, st)
      else if t = TRBrack then close_array st
      else None)"
| "pstep PObjFirst st t = (if t = TRBrace then close_object st else member_key t st)"
| "pstep PKey st t = member_key t st"
| "pstep PColon st t = (if t = TColon then Some (PValue, st) else None)"
| "pstep PAfterMember st t =
     (if t = TComma then Some (PKey, st)
      else if t = TRBrace then close_object st
      else None)"
| "pstep (PDone v) st t = None"

fun parse_tokens :: "pstate \<Rightarrow> frame list \<Rightarrow> token list \<Rightarrow> ustring json option" where
  "parse_tokens (PDone v) st [] = Some v"
| "parse_tokens p st [] = None"
| "parse_tokens p st (t # ts) =
     (case pstep p st t of
        None \<Rightarrow> None
      | Some (p', st') \<Rightarrow> parse_tokens p' st' ts)"

definition JSON_parse :: "string \<Rightarrow> ustring json option" where
  "JSON_parse s =
     (case lex s of None \<Rightarrow> None | Some ts \<Rightarrow> parse_tokens PValue [] ts)"

section \<open>\<open>String.prototype.trim\<close> and the fence pattern\<close>

text \<open>
  White space of \<open>trim\<close> and of the class \<open>\s\<close>, as far as \<open>char\<close> reaches:
  tab, line feed, vertical tab, form feed, carriage return, space, no-break space.
\<close>

definition is_js_space :: "char \<Rightarrow> bool" where
  "is_js_space c = (of_char c \<in> {9, 10, 11, 12, 13, 32, 160 :: nat})"

definition is_word_char :: "char \<Rightarrow> bool" where
  "is_word_char c =
     (let n = (of_char c :: nat) in
      (48 \<le> n \<and> n \<le> 57) \<or> (65 \<le> n \<and> n \<le> 90) \<or> (97 \<le> n \<and> n \<le> 122) \<or> n = 95)"

definition trim :: "string \<Rightarrow> string" where
  "trim s = rev (dropWhile is_js_space (rev (dropWhile is_js_space s)))"

text \<open>
  A backtracking matcher for the fragment of regular expressions the code uses: a
  sequence of single-character atoms, each plain, optional (\<open>?\<close>), greedy
  (\<open>*\<close>) or lazy (\<open>*?\<close>), in the priority order of ECMAScript (greedy: longest
  first; lazy: shortest first; optional: present first). \<open>rmatch\<close> matches at the
  start of its input only, which is what \<open>^\<close> asks, and returns what the one
  capture between \<open>GroupOpen\<close> and \<open>GroupClose\<close> holds in the first match found.
\<close>

datatype cclass = Word | Space | Newline | AnyChar | Lit char

fun in_class :: "cclass \<Rightarrow> char \<Rightarrow> bool" where
  "in_class Word c = is_word_char c"
| "in_class Space c = is_js_space c"
| "in_class Newline c = (c = CHR 0x0A)"
| "in_class AnyChar c = True"
| "in_class (Lit l) c = (c = l)"

datatype item =
    One cclass | Opt cclass | Star cclass | LazyStar cclass
  | GroupOpen | GroupClose | EndOfInput

fun rmatch :: "item list \<Rightarrow> string \<Rightarrow> bool \<Rightarrow> string \<Rightarrow> string option" where
  "rmatch [] s on acc = Some acc"
| "rmatch (EndOfInput # rs) s on acc = (if s = [] then rmatch rs s on acc else None)"
| "rmatch (GroupOpen # rs) s on acc = rmatch rs s True []"
| "rmatch (GroupClose # rs) s on acc = rmatch rs s False acc"
| "rmatch (One c # rs) [] on acc = None"
| "rmatch (One c # rs) (x # xs) on acc =
     (if in_class c x then rmatch rs xs on (if on then acc @ [x] else acc) else None)"
| "rmatch (Opt c # rs) [] on acc = rmatch rs [] on acc"
| "rmatch (Opt c # rs) (x # xs) on acc =
     (if in_class c x then
        (case rmatch rs xs on (if on then acc @ [x] else acc) of
           Some r \<Rightarrow> Some r
         | None \<Rightarrow> rmatch rs (x # xs) on acc)
      else rmatch rs (x # xs) on acc)"
| "rmatch (Star c # rs) [] on acc = rmatch rs [] on acc"
| "rmatch (Star c # rs) (x # xs) on acc =
     (if in_class c x then
        (case rmatch (Star c # rs) xs on (if on then acc @ [x] else acc) of
           Some r \<Rightarrow> Some r
         | None \<Rightarrow> rmatch rs (x # xs) on acc)
      else rmatch rs (x # xs) on acc)"
| "rmatch (LazyStar c # rs) [] on acc = rmatch rs [] on acc"
| "rmatch (LazyStar c # rs) (x # xs) on acc =
     (case rmatch rs (x # xs) on acc of
        Some r \<Rightarrow> Some r
      | None \<Rightarrow>
          if in_class c x then rmatch (LazyStar c # rs) xs on (if on then acc @ [x] else acc)
          else None)"

text \<open>
  \<open>/^```(\w*)?\s*\n?(.*?)\n?\s*```$/s\<close>. Only group 2 is read by the code, so
  group 1, \<open>(\w*)?\<close>, is the greedy \<open>\w*\<close> it tries in the same order; with
  the flag \<open>s\<close> the dot is any character.
\<close>

definition fenceRegex :: "item list" where
  "fenceRegex =
     [One (Lit CHR 0x60), One (Lit CHR 0x60), One (Lit CHR 0x60),
      Star Word, Star Space, Opt Newline,
      GroupOpen, LazyStar AnyChar, GroupClose,
      Opt Newline, Star Space,
      One (Lit CHR 0x60), One (Lit CHR 0x60), One (Lit CHR 0x60), EndOfInput]"

text \<open>The closing fence of the pattern: three backticks at the end of the input.\<close>

definition fenceEnd :: "item list" where
  "fenceEnd = [One (Lit CHR 0x60), One (Lit CHR 0x60), One (Lit CHR 0x60), EndOfInput]"

text \<open>
  \<open>const match = jsonStr.match(fenceRegex); if (match && match[2]) jsonStr = match[2].trim()\<close>.
\<close>

definition unfence :: "string \<Rightarrow> string" where
  "unfence jsonStr =
     (case rmatch fenceRegex jsonStr False [] of
        Some g \<Rightarrow> if g \<noteq> [] then trim g else jsonStr
      | None \<Rightarrow> jsonStr)"


section \<open>geminiService: the analysis call\<close>

text \<open>
  The part of the \<open>try\<close> block after the response: strip the fence, parse, read the
  selector. \<open>parsed && typeof parsed.selector === 'string' && parsed.selector\<close>.
\<close>

definition readSelector :: "ustring json \<Rightarrow> ustring option" where
  "readSelector parsed =
     (if truthy parsed then
        (case get_prop parsed (ustr ''selector'') of
           Some (JStr s) \<Rightarrow> if s \<noteq> [] then Some s else None
         | _ \<Rightarrow> None)
      else None)"

definition parseResponse :: "env \<Rightarrow> string \<Rightarrow> thrown + ustring option" where
  "parseResponse en text =
     (let jsonStr = unfence (trim text) in
      case JSON_parse jsonStr of
        None \<Rightarrow> Inl (JsError (syntaxErrorMessage en jsonStr))
      | Some parsed \<Rightarrow> Inr (readSelector parsed))"

text \<open>The \<open>catch\<close> block of \<open>findAcceptButtonSelector\<close>: what it throws for what it caught.\<close>

definition analysisError :: "thrown \<Rightarrow> thrown" where
  "analysisError e =
     (case e of
        AppError m c \<Rightarrow> AppError m c
      | JsError m \<Rightarrow>
          if str_includes m ''API key not valid'' then
            ApiKeyError ''Your Gemini API Key is invalid. Please check it in the settings.''
          else
            AppError ''An unexpected error occurred during AI analysis.''
              GENERIC_ANALYSIS_ERROR)"

definition findAcceptButtonSelector ::
  "env \<Rightarrow> world \<Rightarrow> string \<Rightarrow> (thrown + ustring option) \<times> world" where
  "findAcceptButtonSelector en w html =
     (let w0 = emit (FindAcceptButtonSelector html) w;
          prompt = prompt_text en @ ''\<newline>'' @ take 30000 html
      in case getAiInstance en w0 of
           (Inl e, w1) \<Rightarrow> (Inl (analysisError e), w1)
         | (Inr gemini, w1) \<Rightarrow>
             (let w2 = emit (GenerateContent (client_key gemini) prompt) w1 in
              case generateContent en (trace w1) (client_key gemini) prompt of
                GenerateRejected m \<Rightarrow> (Inl (analysisError (JsError m)), w2)
              | GenerateText t \<Rightarrow>
                  (case parseResponse en t of
                     Inl e \<Rightarrow> (Inl (analysisError e), w2)
                   | Inr r \<Rightarrow> (Inr r, w2))))"

section \<open>stateManager\<close>

definition getInitialState :: "string \<Rightarrow> StatusUpdatePayload" where
  "getInitialState u = \<lparr>status = IDLE, url = Some u, error = None\<rparr>"

text \<open>The spread \<open>{ ...currentState, ...newStatus }\<close>: a present key overrides.\<close>

definition applyPatch :: "StatusUpdatePayload \<Rightarrow> StatusPatch \<Rightarrow> StatusUpdatePayload" where
  "applyPatch cur p =
     \<lparr>status = (case p_status p of Some s \<Rightarrow> s | None \<Rightarrow> status cur),
      url = (case p_url p of Some u \<Rightarrow> u | None \<Rightarrow> url cur),
      error = (case p_error p of Some e \<Rightarrow> e | None \<Rightarrow> error cur)\<rparr>"

text \<open>
  \<open>updateStatus\<close>: the map is written first; a rejected session write leaves the
  function before the broadcast; a failed broadcast is caught inside.
\<close>

definition updateStatus ::
  "env \<Rightarrow> world \<Rightarrow> nat \<Rightarrow> StatusPatch \<Rightarrow> (thrown + unit) \<times> world" where
  "updateStatus en w tabId newStatus =
     (let currentState = (case tabStates w tabId of
                            Some st \<Rightarrow> st | None \<Rightarrow> getInitialState []);
          updatedState = applyPatch currentState newStatus;
          w1 = emit (UpdateStatus tabId updatedState)
                 (w\<lparr>tabStates := (tabStates w)(tabId \<mapsto> updatedState)\<rparr>);
          w2 = emit (SessionSetTab tabId updatedState) w1
      in case session_set_error en (trace w1) of
           Some m \<Rightarrow> (Inl (JsError m), w2)
         | None \<Rightarrow>
             (Inr (),
              emit (Broadcast updatedState)
                (w2\<lparr>session_tabs := (session_tabs w2)(tabId \<mapsto> updatedState)\<rparr>)))"


section \<open>analyticsService\<close>

definition sendEvent :: "env \<Rightarrow> world \<Rightarrow> AnalyticsBody \<Rightarrow> (thrown + unit) \<times> world" where
  "sendEvent en w body =
     (case getSettings en w of
        (Inl e, w1) \<Rightarrow> (Inl e, w1)
      | (Inr settings, w1) \<Rightarrow>
          if mode settings \<noteq> FREE_AD_SUPPORTED \<or> \<not> consent settings then (Inr (), w1)
          else (Inr (), emit (PostAnalytics body) w1))"

definition trackScanSuccess ::
  "env \<Rightarrow> world \<Rightarrow> string \<Rightarrow> ustring option \<Rightarrow> string option \<Rightarrow> (thrown + unit) \<times> world" where
  "trackScanSuccess en w u sel ctx =
     sendEvent en w
       \<lparr>a_event = ''scan_result'', a_status = ''success'', a_url = u,
        a_banner_html_context = ctx, a_selector = sel, a_reason = None\<rparr>"

definition trackScanNotFound ::
  "env \<Rightarrow> world \<Rightarrow> string \<Rightarrow> string option \<Rightarrow> (thrown + unit) \<times> world" where
  "trackScanNotFound en w u ctx =
     sendEvent en w
       \<lparr>a_event = ''scan_result'', a_status = ''not_found'', a_url = u,
        a_banner_html_context = ctx, a_selector = None, a_reason = None\<rparr>"

definition trackScanError ::
  "env \<Rightarrow> world \<Rightarrow> string \<Rightarrow> string \<Rightarrow> string option \<Rightarrow> (thrown + unit) \<times> world" where
  "trackScanError en w u r ctx =
     sendEvent en w
       \<lparr>a_event = ''scan_result'', a_status = ''error'', a_url = u,
        a_banner_html_context = ctx, a_selector = None, a_reason = Some r\<rparr>"

section \<open>scanManager\<close>

definition htmlFetchFailed :: thrown where
  "htmlFetchFailed = AppError ''Failed to get page HTML.'' HTML_FETCH_FAILED"

definition status_only :: "ScanStatus \<Rightarrow> StatusPatch" where
  "status_only s = \<lparr>p_status = Some s, p_url = None, p_error = None\<rparr>"

text \<open>
  Step 3 and 3a of \<open>executeScan\<close>: inject the clicker and act on
  \<open>clickResults?.[0]?.result\<close>. A missing reason or an empty one gives the default
  message.
\<close>

definition clickStep ::
  "env \<Rightarrow> world \<Rightarrow> nat \<Rightarrow> string \<Rightarrow> ustring \<Rightarrow> string \<Rightarrow> (thrown + unit) \<times> world" where
  "clickStep en w tabId tabUrl selector bannerHtmlContext =
     (let w1 = emit (ClickSelector tabId selector) w in
      case click_page en (trace w) selector of
        ScriptRejected m \<Rightarrow> (Inl (JsError m), w1)
      | ScriptResult res \<Rightarrow>
          if (case res of Some r \<Rightarrow> success r | None \<Rightarrow> False) then
            (case updateStatus en w1 tabId (status_only SUCCESS) of
               (Inl e, w2) \<Rightarrow> (Inl e, w2)
             | (Inr u, w2) \<Rightarrow>
                 trackScanSuccess en w2 tabUrl (Some selector) (Some bannerHtmlContext))
          else
            (Inl (AppError
                    (case res of
                       Some r \<Rightarrow>
                         if reason r \<noteq> [] then reason r
                         else ''Click failed for an unknown reason.''
                     | None \<Rightarrow> ''Click failed for an unknown reason.'')
                    CLICK_FAILED),
             w1))"

text \<open>
  The \<open>try\<close> block after the extraction call has resolved with \<open>html\<close>
  (\<open>None\<close>: \<open>undefined\<close>).
\<close>

definition analyzeAndClick ::
  "env \<Rightarrow> world \<Rightarrow> nat \<Rightarrow> string \<Rightarrow> string option \<Rightarrow> (thrown + unit) \<times> world" where
  "analyzeAndClick en w tabId tabUrl html =
     (case html of
        None \<Rightarrow> (Inl htmlFetchFailed, w)
      | Some h \<Rightarrow>
          if h = [] then (Inl htmlFetchFailed, w)
          else
            (case updateStatus en w tabId (status_only ANALYZING) of
               (Inl e, w1) \<Rightarrow> (Inl e, w1)
             | (Inr u, w1) \<Rightarrow>
                 (case findAcceptButtonSelector en w1 h of
                    (Inl e, w2) \<Rightarrow> (Inl e, w2)
                  | (Inr selector, w2) \<Rightarrow>
                      (case selector of
                         Some sel \<Rightarrow>
                           if sel \<noteq> [] then clickStep en w2 tabId tabUrl sel (take 30000 h)
                           else
                             (case updateStatus en w2 tabId (status_only NOT_FOUND) of
                                (Inl e, w3) \<Rightarrow> (Inl e, w3)
                              | (Inr u, w3) \<Rightarrow>
                                  trackScanNotFound en w3 tabUrl (Some (take 30000 h)))
                       | None \<Rightarrow>
                           (case updateStatus en w2 tabId (status_only NOT_FOUND) of
                              (Inl e, w3) \<Rightarrow> (Inl e, w3)
                            | (Inr u, w3) \<Rightarrow>
                                trackScanNotFound en w3 tabUrl (Some (take 30000 h)))))))"

text \<open>The \<open>catch\<close> block: \<open>html\<close> is the variable as the \<open>try\<close> block left it.\<close>

definition errorPayloadOf :: "thrown \<Rightarrow> ErrorPayload" where
  "errorPayloadOf e =
     (case e of
        AppError m c \<Rightarrow> \<lparr>code = c, message = m\<rparr>
      | JsError m \<Rightarrow>
          \<lparr>code = GENERIC_ANALYSIS_ERROR,
           message = ''An unknown error occurred during the scan.''\<rparr>)"

definition handleScanError ::
  "env \<Rightarrow> world \<Rightarrow> nat \<Rightarrow> string \<Rightarrow> thrown \<Rightarrow> string option \<Rightarrow> (thrown + unit) \<times> world" where
  "handleScanError en w tabId tabUrl e html =
     (let errorPayload = errorPayloadOf e in
      case updateStatus en w tabId
             \<lparr>p_status = Some ERROR, p_url = None, p_error = Some (Some errorPayload)\<rparr> of
        (Inl e', w1) \<Rightarrow> (Inl e', w1)
      | (Inr u, w1) \<Rightarrow>
          trackScanError en w1 tabUrl (message errorPayload)
            (case html of
               Some h \<Rightarrow> if h \<noteq> [] then Some (take 30000 h) else None
             | None \<Rightarrow> None))"

text \<open>
  \<open>executeScan\<close>. \<open>Inl\<close> is a rejection of its promise, which happens only when the
  \<open>catch\<close> block itself throws.
\<close>

definition executeScan ::
  "env \<Rightarrow> world \<Rightarrow> nat \<Rightarrow> string \<Rightarrow> (thrown + unit) \<times> world" where
  "executeScan en w tabId tabUrl =
     (let w1 = emit (ExtractHtml tabId) w;
          injectionResults = page_html en (trace w);
          html = (case injectionResults of
                    ScriptRejected m \<Rightarrow> None
                  | ScriptResult r \<Rightarrow> r)
      in case (case injectionResults of
                 ScriptRejected m \<Rightarrow> (Inl (JsError m), w1)
               | ScriptResult r \<Rightarrow> analyzeAndClick en w1 tabId tabUrl r) of
           (Inr u, w2) \<Rightarrow> (Inr (), w2)
         | (Inl e, w2) \<Rightarrow> handleScanError en w2 tabId tabUrl e html)"

section \<open>messageHandler and the listeners of background.ts\<close>

datatype MessageType = MANUAL_SCAN_REQUEST | GET_STATUS | OPEN_OPTIONS_PAGE | STATUS_UPDATE

text \<open>\<open>tab.id && tab.url\<close>: both present and truthy.\<close>

definition scannable :: "Tab \<Rightarrow> (nat \<times> string) option" where
  "scannable t =
     (case (tab_id t, tab_url t) of
        (Some i, Some u) \<Rightarrow> if i \<noteq> 0 \<and> u \<noteq> [] then Some (i, u) else None
      | _ \<Rightarrow> None)"

text \<open>\<open>tabStates.get(tabId) || getInitialState(tabUrl)\<close>, with the default \<open>""\<close>.\<close>

definition statusOrInitial ::
  "world \<Rightarrow> nat \<Rightarrow> string option \<Rightarrow> StatusUpdatePayload" where
  "statusOrInitial w tabId tabUrl =
     (case tabStates w tabId of
        Some st \<Rightarrow> st
      | None \<Rightarrow> getInitialState (case tabUrl of Some u \<Rightarrow> u | None \<Rightarrow> []))"

definition id_of :: "Tab option \<Rightarrow> nat option" where
  "id_of t = (case t of Some x \<Rightarrow> tab_id x | None \<Rightarrow> None)"

definition url_of :: "Tab option \<Rightarrow> string option" where
  "url_of t = (case t of Some x \<Rightarrow> tab_url x | None \<Rightarrow> None)"

text \<open>
  The router. The scan it starts is not awaited; the model runs it to its end, so the
  world returned is the one after the scan. The reply is the payload for
  \<open>GET_STATUS\<close> and nothing otherwise. \<open>sender\<close> is \<open>sender.tab\<close>; a tab id is
  falsy when missing or 0. \<open>statusOfActiveTab\<close> is the answer for the tab found by
  \<open>chrome.tabs.query\<close> when the sender names none.
\<close>

definition statusOfActiveTab :: "env \<Rightarrow> world \<Rightarrow> StatusUpdatePayload" where
  "statusOfActiveTab en w =
     (let activeTab = active_tab en (trace w) in
      case id_of activeTab of
        Some j \<Rightarrow>
          if j \<noteq> 0 then statusOrInitial w j (url_of activeTab) else getInitialState []
      | None \<Rightarrow> getInitialState [])"

definition messageHandler ::
  "env \<Rightarrow> world \<Rightarrow> MessageType \<Rightarrow> Tab option \<Rightarrow> StatusUpdatePayload option \<times> world" where
  "messageHandler en w msg sender =
     (case msg of
        MANUAL_SCAN_REQUEST \<Rightarrow>
          (let w1 = emit TabsQuery w in
           case active_tab en (trace w) of
             None \<Rightarrow> (None, w1)
           | Some activeTab \<Rightarrow>
               (case scannable activeTab of
                  Some (i, u) \<Rightarrow> (None, snd (executeScan en w1 i u))
                | None \<Rightarrow> (None, w1)))
      | GET_STATUS \<Rightarrow>
          (case id_of sender of
             Some i \<Rightarrow>
               if i \<noteq> 0 then (Some (statusOrInitial w i (url_of sender)), w)
               else (Some (statusOfActiveTab en w), emit TabsQuery w)
           | None \<Rightarrow> (Some (statusOfActiveTab en w), emit TabsQuery w))
      | OPEN_OPTIONS_PAGE \<Rightarrow> (None, w)
      | STATUS_UPDATE \<Rightarrow> (None, w))"

text \<open>
  The listener of \<open>chrome.action.onClicked\<close>: the status goes to \<open>SCANNING\<close>, with
  the error cleared, before the scan is started.
\<close>

definition onActionClicked :: "env \<Rightarrow> world \<Rightarrow> Tab \<Rightarrow> world" where
  "onActionClicked en w t =
     (case scannable t of
        Some (i, u) \<Rightarrow>
          (case updateStatus en w i
                  \<lparr>p_status = Some SCANNING, p_url = Some (Some u), p_error = Some None\<rparr> of
             (Inl e, w1) \<Rightarrow> w1
           | (Inr x, w1) \<Rightarrow> snd (executeScan en w1 i u))
      | None \<Rightarrow> w)"




section \<open>Observations on a run\<close>

text \<open>Counters over the trace: configuration fetches, gateway entries, analytics POSTs.\<close>

definition fetch_calls :: "world \<Rightarrow> nat" where
  "fetch_calls w = length (filter (\<lambda>e. e = FetchConfig) (trace w))"

fun is_gateway_call :: "event \<Rightarrow> bool" where
  "is_gateway_call (FindAcceptButtonSelector h) = True"
| "is_gateway_call _ = False"

definition gateway_calls :: "world \<Rightarrow> nat" where
  "gateway_calls w = length (filter is_gateway_call (trace w))"

fun is_post :: "event \<Rightarrow> bool" where
  "is_post (PostAnalytics b) = True"
| "is_post _ = False"

definition analytics_posts :: "world \<Rightarrow> nat" where
  "analytics_posts w = length (filter is_post (trace w))"


text \<open>The analytics gate of \<open>sendEvent\<close>, read off the stored settings.\<close>

definition gated :: "env \<Rightarrow> world \<Rightarrow> bool" where
  "gated en w = (mode (readSettings en (sync w)) = FREE_AD_SUPPORTED \<and>
                  consent (readSettings en (sync w)))"

section \<open>The worlds of the service worker\<close>

text \<open>
  The client cache is fresh for the stored settings: empty, or holding the client that
  \<open>getAiInstance\<close> builds from them. The storage listener keeps it so.
\<close>

definition cache_fresh :: "env \<Rightarrow> world \<Rightarrow> bool" where
  "cache_fresh en w =
     (case (cachedAiInstance w, cachedSettingsKey w) of
        (None, None) \<Rightarrow> True
      | (Some ai, Some k) \<Rightarrow>
          (let settings = readSettings en (sync w) in
           client_key ai \<noteq> [] \<and>
           k = settingsKey (mode settings) (consent settings) (Some (client_key ai)) \<and>
           (mode settings = BYOK \<longrightarrow> userKey settings = Some (client_key ai)) \<and>
           (mode settings = FREE_AD_SUPPORTED \<longrightarrow> consent settings))
      | _ \<Rightarrow> False)"

text \<open>
  A service worker that has just started on the given settings with nothing in the
  session storage, and one that is restarted: what the module holds in memory is lost,
  both storages stay.
\<close>

definition fresh :: "SyncStorage \<Rightarrow> world" where
  "fresh s =
     \<lparr>sync = s, tabStates = Map.empty, session_tabs = Map.empty, session_central = None,
      cachedAiInstance = None, cachedSettingsKey = None, trace = []\<rparr>"



section \<open>Concrete settings and platforms\<close>

text \<open>
  Stored settings, a tab, and a platform on which nothing fails: the page has a body,
  the configuration server answers, the model answers that it found no banner, a click
  succeeds. The other platforms differ from it in one answer.
\<close>

definition no_settings :: SyncStorage where
  "no_settings = \<lparr>operatingMode = None, dataCollectionConsent = None, apiKey = None\<rparr>"

definition byok_settings :: SyncStorage where
  "byok_settings =
     \<lparr>operatingMode = Some BYOK, dataCollectionConsent = Some True, apiKey = Some ''my-key''\<rparr>"



definition example_tab :: Tab where
  "example_tab = \<lparr>tab_id = Some 1, tab_url = Some ''https://example.org/''\<rparr>"

definition quiet :: env where
  "quiet =
     \<lparr>sync_lastError = (\<lambda>h. None),
      atob = (\<lambda>s. None),
      dev_central_key = None,
      session_get_error = (\<lambda>h. False),
      session_set_error = (\<lambda>h. None),
      now = (\<lambda>h. 0),
      config_response = (\<lambda>h. FetchResponse True 200 (Some (JObj [(''apiKey'', JStr ''central-key'')]))),
      generateContent = (\<lambda>h k p. GenerateText ''{\"selector\": null}''),
      syntaxErrorMessage = (\<lambda>s. ''Unexpected token''),
      prompt_text = ''Find the accept button.'',
      page_html = (\<lambda>h. ScriptResult (Some ''<body></body>'')),
      click_page = (\<lambda>h s. ScriptResult (Some \<lparr>success = True, reason = []\<rparr>)),
      active_tab = (\<lambda>h. Some \<lparr>tab_id = Some 1, tab_url = Some ''https://example.org/''\<rparr>)\<rparr>"

definition blank_page :: env where
  "blank_page = quiet\<lparr>page_html := (\<lambda>h. ScriptResult None)\<rparr>"

definition finds_button :: env where
  "finds_button =
     quiet\<lparr>generateContent := (\<lambda>h k p. GenerateText ''{\"selector\":\"#accept\"}'')\<rparr>"

definition answers :: "string \<Rightarrow> env" where
  "answers t = quiet\<lparr>generateContent := (\<lambda>h k p. GenerateText t)\<rparr>"


section \<open>Properties\<close>

subsection \<open>What each function leaves alone\<close>

lemma ustr_empty [simp]: "(ustr s = []) = (s = [])"
  by (simp add: ustr_def)

lemma trace_emit [simp]: "trace (emit e w) = trace w @ [e]"
  by (simp add: emit_def)

lemma cache_emit [simp]:
  "cachedAiInstance (emit e w) = cachedAiInstance w"
  "cachedSettingsKey (emit e w) = cachedSettingsKey w"
  by (simp_all add: emit_def)

lemma emit_fields [simp]:
  "sync (emit e w) = sync w"
  "tabStates (emit e w) = tabStates w"
  "session_tabs (emit e w) = session_tabs w"
  "session_central (emit e w) = session_central w"
  by (simp_all add: emit_def)

lemma getSettings_snd [simp]: "snd (getSettings en w) = emit SyncGet w"
  by (simp add: getSettings_def split: option.splits)

lemma getSettings_fst:
  "fst (getSettings en w) =
     (case sync_lastError en (trace w) of
        Some m \<Rightarrow> Inl (JsError m)
      | None \<Rightarrow> Inr (readSettings en (sync w)))"
  by (simp add: getSettings_def split: option.splits)

lemma posts_emit [simp]:
  "analytics_posts (emit e w) = (if is_post e then Suc (analytics_posts w) else analytics_posts w)"
  by (simp add: analytics_posts_def)

lemma gateway_emit [simp]:
  "gateway_calls (emit e w) =
     (if is_gateway_call e then Suc (gateway_calls w) else gateway_calls w)"
  by (simp add: gateway_calls_def)

lemma fetch_emit [simp]:
  "fetch_calls (emit e w) = (if e = FetchConfig then Suc (fetch_calls w) else fetch_calls w)"
  by (simp add: fetch_calls_def)

lemma counters_upd [simp]:
  "analytics_posts (w\<lparr>tabStates := ts\<rparr>) = analytics_posts w"
  "analytics_posts (w\<lparr>session_tabs := ss\<rparr>) = analytics_posts w"
  "analytics_posts (w\<lparr>session_central := sc\<rparr>) = analytics_posts w"
  "analytics_posts (w\<lparr>cachedAiInstance := ca\<rparr>) = analytics_posts w"
  "analytics_posts (w\<lparr>cachedSettingsKey := ck\<rparr>) = analytics_posts w"
  "gateway_calls (w\<lparr>tabStates := ts\<rparr>) = gateway_calls w"
  "gateway_calls (w\<lparr>session_tabs := ss\<rparr>) = gateway_calls w"
  "gateway_calls (w\<lparr>session_central := sc\<rparr>) = gateway_calls w"
  "gateway_calls (w\<lparr>cachedAiInstance := ca\<rparr>) = gateway_calls w"
  "gateway_calls (w\<lparr>cachedSettingsKey := ck\<rparr>) = gateway_calls w"
  "fetch_calls (w\<lparr>tabStates := ts\<rparr>) = fetch_calls w"
  "fetch_calls (w\<lparr>session_tabs := ss\<rparr>) = fetch_calls w"
  "fetch_calls (w\<lparr>session_central := sc\<rparr>) = fetch_calls w"
  "fetch_calls (w\<lparr>cachedAiInstance := ca\<rparr>) = fetch_calls w"
  "fetch_calls (w\<lparr>cachedSettingsKey := ck\<rparr>) = fetch_calls w"
  by (simp_all add: analytics_posts_def gateway_calls_def fetch_calls_def)

lemma sendEvent_frame [simp]:
  "sync (snd (sendEvent en w b)) = sync w"
  "tabStates (snd (sendEvent en w b)) = tabStates w"
  "gateway_calls (snd (sendEvent en w b)) = gateway_calls w"
  by (simp_all add: sendEvent_def getSettings_def split: option.splits)

lemma sendEvent_posts:
  "analytics_posts (snd (sendEvent en w b)) =
     (if sync_lastError en (trace w) = None \<and>
         mode (readSettings en (sync w)) = FREE_AD_SUPPORTED \<and>
         consent (readSettings en (sync w))
      then Suc (analytics_posts w) else analytics_posts w)"
  by (simp add: sendEvent_def getSettings_def split: option.splits)

lemma updateStatus_frame [simp]:
  "sync (snd (updateStatus en w i p)) = sync w"
  "analytics_posts (snd (updateStatus en w i p)) = analytics_posts w"
  "gateway_calls (snd (updateStatus en w i p)) = gateway_calls w"
  "fetch_calls (snd (updateStatus en w i p)) = fetch_calls w"
  by (simp_all add: updateStatus_def Let_def split: option.splits)

lemma updateStatus_tab:
  "tabStates (snd (updateStatus en w i p)) =
     (tabStates w)(i \<mapsto> applyPatch (case tabStates w i of Some st \<Rightarrow> st
                                      | None \<Rightarrow> getInitialState []) p)"
  by (simp add: updateStatus_def Let_def split: option.splits)


lemma fetchCentral_frame [simp]:
  "sync (snd (fetchCentralApiKey en w)) = sync w"
  "tabStates (snd (fetchCentralApiKey en w)) = tabStates w"
  "analytics_posts (snd (fetchCentralApiKey en w)) = analytics_posts w"
  "gateway_calls (snd (fetchCentralApiKey en w)) = gateway_calls w"
  "cachedAiInstance (snd (fetchCentralApiKey en w)) = cachedAiInstance w"
  "cachedSettingsKey (snd (fetchCentralApiKey en w)) = cachedSettingsKey w"
  by (simp_all add: fetchCentralApiKey_def Let_def
      split: fetch_result.splits option.splits json.splits)

lemma cachedOrFetched_frame [simp]:
  "sync (snd (cachedOrFetchedKey en w)) = sync w"
  "tabStates (snd (cachedOrFetchedKey en w)) = tabStates w"
  "analytics_posts (snd (cachedOrFetchedKey en w)) = analytics_posts w"
  "gateway_calls (snd (cachedOrFetchedKey en w)) = gateway_calls w"
  "cachedAiInstance (snd (cachedOrFetchedKey en w)) = cachedAiInstance w"
  "cachedSettingsKey (snd (cachedOrFetchedKey en w)) = cachedSettingsKey w"
  by (simp_all add: cachedOrFetchedKey_def Let_def split: option.splits)

lemma getCentral_frame [simp]:
  "sync (snd (getCentralApiKey en w)) = sync w"
  "tabStates (snd (getCentralApiKey en w)) = tabStates w"
  "analytics_posts (snd (getCentralApiKey en w)) = analytics_posts w"
  "gateway_calls (snd (getCentralApiKey en w)) = gateway_calls w"
  "cachedAiInstance (snd (getCentralApiKey en w)) = cachedAiInstance w"
  "cachedSettingsKey (snd (getCentralApiKey en w)) = cachedSettingsKey w"
  by (simp_all add: getCentralApiKey_def split: option.splits)

lemma resolve_frame [simp]:
  "sync (snd (resolveApiKey en s w)) = sync w"
  "tabStates (snd (resolveApiKey en s w)) = tabStates w"
  "analytics_posts (snd (resolveApiKey en s w)) = analytics_posts w"
  "gateway_calls (snd (resolveApiKey en s w)) = gateway_calls w"
  "cachedAiInstance (snd (resolveApiKey en s w)) = cachedAiInstance w"
  "cachedSettingsKey (snd (resolveApiKey en s w)) = cachedSettingsKey w"
  by (simp_all add: resolveApiKey_def prod.case_eq_if split: OperatingMode.splits sum.splits)

lemma getAiInstance_frame [simp]:
  "sync (snd (getAiInstance en w)) = sync w"
  "tabStates (snd (getAiInstance en w)) = tabStates w"
  "analytics_posts (snd (getAiInstance en w)) = analytics_posts w"
  "gateway_calls (snd (getAiInstance en w)) = gateway_calls w"
  by (simp_all add: getAiInstance_def Let_def prod.case_eq_if
      split: option.splits sum.splits)

lemma findAccept_frame [simp]:
  "sync (snd (findAcceptButtonSelector en w h)) = sync w"
  "tabStates (snd (findAcceptButtonSelector en w h)) = tabStates w"
  "analytics_posts (snd (findAcceptButtonSelector en w h)) = analytics_posts w"
  by (simp_all add: findAcceptButtonSelector_def Let_def prod.case_eq_if
      split: sum.splits generate_result.splits)


lemma track_frame [simp]:
  "sync (snd (trackScanSuccess en w u sel ctx)) = sync w"
  "tabStates (snd (trackScanSuccess en w u sel ctx)) = tabStates w"
  "gateway_calls (snd (trackScanSuccess en w u sel ctx)) = gateway_calls w"
  "sync (snd (trackScanNotFound en w u ctx)) = sync w"
  "tabStates (snd (trackScanNotFound en w u ctx)) = tabStates w"
  "gateway_calls (snd (trackScanNotFound en w u ctx)) = gateway_calls w"
  "sync (snd (trackScanError en w u r ctx)) = sync w"
  "tabStates (snd (trackScanError en w u r ctx)) = tabStates w"
  "gateway_calls (snd (trackScanError en w u r ctx)) = gateway_calls w"
  by (simp_all add: trackScanSuccess_def trackScanNotFound_def trackScanError_def)

lemma clickStep_frame [simp]:
  "sync (snd (clickStep en w i u sel ctx)) = sync w"
  by (simp add: clickStep_def Let_def prod.case_eq_if
      split: script_result.splits sum.splits)

lemma analyzeAndClick_frame [simp]:
  "sync (snd (analyzeAndClick en w i u h)) = sync w"
  by (simp add: analyzeAndClick_def Let_def prod.case_eq_if
      split: option.splits sum.splits)

lemma handleScanError_frame [simp]:
  "sync (snd (handleScanError en w i u e h)) = sync w"
  by (simp add: handleScanError_def Let_def prod.case_eq_if split: sum.splits)

lemma executeScan_frame [simp]:
  "sync (snd (executeScan en w i u)) = sync w"
  by (simp add: executeScan_def Let_def prod.case_eq_if
      split: script_result.splits sum.splits)

lemma sendEvent_silent:
  "\<not> gated en w \<Longrightarrow> analytics_posts (snd (sendEvent en w b)) = analytics_posts w"
  by (simp add: sendEvent_posts gated_def)

lemma gated_frame [simp]:
  "gated en (emit e w) = gated en w"
  "gated en (snd (updateStatus en w i p)) = gated en w"
  "gated en (snd (findAcceptButtonSelector en w h)) = gated en w"
  "gated en (snd (clickStep en w i u sel ctx)) = gated en w"
  "gated en (snd (analyzeAndClick en w i u ho)) = gated en w"
  by (simp_all add: gated_def)

lemma clickStep_silent:
  "\<not> gated en w \<Longrightarrow> analytics_posts (snd (clickStep en w i u sel ctx)) = analytics_posts w"
  by (simp add: clickStep_def Let_def prod.case_eq_if trackScanSuccess_def
        sendEvent_silent
      split: script_result.splits sum.splits)

lemma analyzeAndClick_silent:
  "\<not> gated en w \<Longrightarrow> analytics_posts (snd (analyzeAndClick en w i u h)) = analytics_posts w"
  by (simp add: analyzeAndClick_def Let_def prod.case_eq_if trackScanNotFound_def
        sendEvent_silent clickStep_silent
      split: option.splits sum.splits)

lemma handleScanError_silent:
  "\<not> gated en w \<Longrightarrow>
   analytics_posts (snd (handleScanError en w i u e h)) = analytics_posts w"
  by (simp add: handleScanError_def Let_def prod.case_eq_if trackScanError_def
        sendEvent_silent
      split: sum.splits)

lemma executeScan_silent:
  "\<not> gated en w \<Longrightarrow> analytics_posts (snd (executeScan en w i u)) = analytics_posts w"
  by (simp add: executeScan_def Let_def prod.case_eq_if
        analyzeAndClick_silent handleScanError_silent
      split: script_result.splits sum.splits)


lemma executeScan_no_markup:
  assumes "page_html en (trace w) = ScriptResult r"
    and "r = None \<or> r = Some []"
  shows "executeScan en w i u =
           handleScanError en (emit (ExtractHtml i) w) i u htmlFetchFailed r"
  using assms by (auto simp: executeScan_def analyzeAndClick_def Let_def)

lemma handleScanError_tab:
  "tabStates (snd (handleScanError en w i u e h)) =
     (tabStates w)(i \<mapsto>
        \<lparr>status = ERROR,
         url = (case tabStates w i of Some st \<Rightarrow> url st | None \<Rightarrow> Some []),
         error = Some (errorPayloadOf e)\<rparr>)"
  by (simp add: handleScanError_def Let_def prod.case_eq_if updateStatus_tab
        applyPatch_def getInitialState_def
      split: sum.splits option.splits)

lemma handleScanError_gateway:
  "gateway_calls (snd (handleScanError en w i u e h)) = gateway_calls w"
  by (simp add: handleScanError_def Let_def prod.case_eq_if split: sum.splits)

subsection \<open>Running the model on concrete inputs\<close>

lemmas scan_defs =
  messageHandler_def executeScan_def analyzeAndClick_def clickStep_def handleScanError_def
  updateStatus_def findAcceptButtonSelector_def getAiInstance_def getSettings_def
  readSettings_def resolveApiKey_def createAiInstance_def cache_hit_def settingsKey_def
  sendEvent_def trackScanSuccess_def trackScanNotFound_def trackScanError_def
  status_only_def applyPatch_def getInitialState_def scannable_def decode_def
  errorPayloadOf_def htmlFetchFailed_def no_key_def bool_str_def emit_def
  onActionClicked_def

lemmas text_defs =
  parseResponse_def unfence_def trim_def is_js_space_def is_word_char_def fenceRegex_def
  JSON_parse_def is_json_ws_def is_digit_def is_num_char_def cons_tok_def readSelector_def
  ustr_def
  valid_number_def valid_frac_def valid_exp_def

lemma parse_null: "parseResponse en ''{\"selector\": null}'' = Inr None"
  by (simp add: text_defs)

lemma parse_empty_object: "parseResponse en ''{}'' = Inr None"
  by (simp add: text_defs)

lemma parse_number: "parseResponse en ''{\"selector\": 42}'' = Inr None"
  by (simp add: text_defs)

lemma parse_accept:
  "parseResponse en ''{\"selector\":\"#accept\"}'' = Inr (Some (ustr ''#accept''))"
  by (simp add: text_defs)

lemma readSelector_eq:
  "readSelector v =
     (case get_prop v (ustr ''selector'') of
        Some (JStr s) \<Rightarrow> if s = [] then None else Some s
      | _ \<Rightarrow> None)"
  by (cases v) (simp_all add: readSelector_def split: option.splits json.splits)

text \<open>
  Escapes beyond \<open>00FF\<close> keep their code: a key spelt \<open>\u0173elector\<close> is not
  \<open>selector\<close>, and the selector \<open>\u0141\<close> is the one code unit 321.
\<close>

lemma parse_escaped_key:
  "parseResponse en (''{\"'' @ [CHR 0x5C] @ ''u0173elector\":\"#x\"}'') = Inr None"
  by (simp add: text_defs hex_val_def unescape_def)

lemma parse_escaped_selector:
  "parseResponse en (''{\"selector\":\"'' @ [CHR 0x5C] @ ''u0141\"}'') = Inr (Some [321])"
  by (simp add: text_defs hex_val_def unescape_def)

text \<open>
  Fences of other shapes: no tag and no line break, with white space around the whole;
  another tag, with blank lines inside. A fence whose body starts with a word character
  right after the opening backticks loses that word to the tag, and the text is left as
  it is.
\<close>

lemma parse_bare_fence:
  "parseResponse en (''  ```{\"selector\":\"#x\"}```'' @ ''\<newline>'') =
     Inr (Some (ustr ''#x''))"
  by (simp add: text_defs)

lemma parse_other_tag:
  "parseResponse en
     (''```JSON5 '' @ ''\<newline>\<newline>'' @ ''{\"selector\":\"#x\"}'' @ ''\<newline>\<newline>'' @ '' ```'') =
     Inr (Some (ustr ''#x''))"
  by (simp add: text_defs)

lemma unfence_word_body: "unfence (trim ''```null```'') = ''```null```''"
  by (simp add: text_defs)

text \<open>
  The action click, for comparison with the router: its scan starts with the update to
  \<open>SCANNING\<close>, and a second scan of the same tab drops the error of the first.
\<close>

lemma action_click_starts_scanning:
  "take 4 (trace (onActionClicked quiet (fresh byok_settings) example_tab)) =
     [UpdateStatus 1 \<lparr>status = SCANNING, url = Some ''https://example.org/'', error = None\<rparr>,
      SessionSetTab 1 \<lparr>status = SCANNING, url = Some ''https://example.org/'', error = None\<rparr>,
      Broadcast \<lparr>status = SCANNING, url = Some ''https://example.org/'', error = None\<rparr>,
      ExtractHtml 1]"
  by (simp add: scan_defs quiet_def fresh_def byok_settings_def example_tab_def
        parse_null Let_def)

lemma action_click_clears_error:
  "tabStates (onActionClicked finds_button
                (onActionClicked blank_page (fresh byok_settings) example_tab)
                example_tab) 1 =
     Some \<lparr>status = SUCCESS, url = Some ''https://example.org/'', error = None\<rparr>"
  by (simp add: scan_defs quiet_def blank_page_def finds_button_def fresh_def
        byok_settings_def example_tab_def parse_accept Let_def)

lemma findAccept_text:
  assumes "getAiInstance en (emit (FindAcceptButtonSelector html) w) = (Inr ai, w1)"
    and "generateContent en (trace w1) (client_key ai)
           (prompt_text en @ ''\<newline>'' @ take 30000 html) = GenerateText t"
  shows "fst (findAcceptButtonSelector en w html) =
           (case parseResponse en t of Inl e \<Rightarrow> Inl (analysisError e) | Inr r \<Rightarrow> Inr r)"
  using assms by (simp add: findAcceptButtonSelector_def Let_def split: sum.splits)

lemma byok_client:
  "getAiInstance (answers t) (emit (FindAcceptButtonSelector h) (fresh byok_settings)) =
     (Inr (GoogleGenAI ''my-key''),
      (emit SyncGet (emit (FindAcceptButtonSelector h) (fresh byok_settings)))
        \<lparr>cachedAiInstance := Some (GoogleGenAI ''my-key''),
         cachedSettingsKey := Some ''BYOK:true:my-key''\<rparr>)"
  by (simp add: scan_defs answers_def quiet_def fresh_def byok_settings_def Let_def)

subsection \<open>The fence pattern on a fenced body\<close>

lemma space_not_backtick: "is_js_space x \<Longrightarrow> x \<noteq> CHR 0x60"
  by (auto simp: is_js_space_def)

lemma space_not_word: "is_js_space x \<Longrightarrow> \<not> is_word_char x"
  by (auto simp: is_js_space_def is_word_char_def)

lemma newline_space: "is_js_space CHR 0x0A"
  by (simp add: is_js_space_def)

lemma fenceEnd_long: "length s \<noteq> 3 \<Longrightarrow> rmatch fenceEnd s False acc = None"
  unfolding fenceEnd_def
  by (cases s; cases "tl s"; cases "tl (tl s)"; cases "tl (tl (tl s))") auto

lemma fenceEnd_matches: "rmatch fenceEnd ''```'' False acc = Some acc"
  by (simp add: fenceEnd_def)

text \<open>A greedy star runs over a prefix of its class when the rest then matches.\<close>

lemma star_prefix:
  "\<forall>x \<in> set ps. in_class c x \<Longrightarrow> rmatch (Star c # rs) rest False acc = Some r \<Longrightarrow>
   rmatch (Star c # rs) (ps @ rest) False acc = Some r"
  by (induction ps) simp_all

text \<open>
  After the body: white space and the closing fence match; anything that still holds
  a character of the body does not.
\<close>

lemma star_space_matches:
  "list_all is_js_space ws \<Longrightarrow>
   rmatch (Star Space # fenceEnd) (ws @ ''```'') False acc = Some acc"
proof -
  assume "list_all is_js_space ws"
  then have "\<forall>x \<in> set ws. in_class Space x" by (simp add: list_all_iff)
  moreover have "rmatch (Star Space # fenceEnd) ''```'' False acc = Some acc"
    using fenceEnd_matches [of acc] by (simp add: is_js_space_def)
  ultimately show ?thesis by (rule star_prefix)
qed

lemma fence_tail_matches:
  assumes "list_all is_js_space ws"
  shows "rmatch (Opt Newline # Star Space # fenceEnd) (ws @ ''```'') False acc = Some acc"
proof (cases ws)
  case Nil
  then show ?thesis using star_space_matches [of "[]" acc] by simp
next
  case (Cons x xs)
  with assms have "list_all is_js_space xs" by simp
  then have "rmatch (Star Space # fenceEnd) (xs @ ''```'') False acc = Some acc"
    by (rule star_space_matches)
  moreover have "rmatch (Star Space # fenceEnd) ((x # xs) @ ''```'') False acc = Some acc"
    using assms Cons star_space_matches [of ws acc] by simp
  ultimately show ?thesis using Cons by simp
qed

lemma star_space_fails:
  "u \<noteq> [] \<Longrightarrow> \<not> is_js_space (last u) \<Longrightarrow> 3 \<le> length rest \<Longrightarrow>
   rmatch (Star Space # fenceEnd) (u @ rest) False acc = None"
proof (induction u)
  case Nil
  then show ?case by simp
next
  case (Cons x xs)
  have long: "rmatch fenceEnd (x # xs @ rest) False acc = None"
    by (rule fenceEnd_long) (use Cons.prems in simp)
  show ?case
  proof (cases "is_js_space x")
    case True
    with Cons.prems have "xs \<noteq> []" by auto
    with Cons have "rmatch (Star Space # fenceEnd) (xs @ rest) False acc = None"
      by simp
    with True long show ?thesis by simp
  next
    case False
    with long show ?thesis by simp
  qed
qed

lemma fence_tail_fails:
  assumes "u \<noteq> []" and "\<not> is_js_space (last u)" and "3 \<le> length rest"
  shows "rmatch (Opt Newline # Star Space # fenceEnd) (u @ rest) False acc = None"
proof (cases u)
  case Nil
  with assms show ?thesis by simp
next
  case (Cons x xs)
  have whole: "rmatch (Star Space # fenceEnd) ((x # xs) @ rest) False acc = None"
    using assms Cons star_space_fails [of u rest acc] by simp
  show ?thesis
  proof (cases "x = CHR 0x0A")
    case True
    with assms Cons have "xs \<noteq> []" by (auto simp: newline_space)
    moreover from this assms Cons have "\<not> is_js_space (last xs)" by simp
    ultimately have "rmatch (Star Space # fenceEnd) (xs @ rest) False acc = None"
      using assms(3) by (rule star_space_fails)
    with True whole Cons show ?thesis by simp
  next
    case False
    with whole Cons show ?thesis by simp
  qed
qed

text \<open>The lazy group takes the body and stops where the closing part first matches.\<close>

lemma lazy_body:
  "b = [] \<or> \<not> is_js_space (last b) \<Longrightarrow> list_all is_js_space ws \<Longrightarrow>
   rmatch (LazyStar AnyChar # GroupClose # Opt Newline # Star Space # fenceEnd)
     (b @ ws @ ''```'') True acc = Some (acc @ b)"
proof (induction b arbitrary: acc)
  case Nil
  then show ?case
    using fence_tail_matches [of ws acc] by (cases "ws @ ''```''") simp_all
next
  case (Cons x xs)
  from Cons.prems have nsp: "\<not> is_js_space (last (x # xs))" by simp
  have "rmatch (Opt Newline # Star Space # fenceEnd) ((x # xs) @ ws @ ''```'') False acc = None"
    by (rule fence_tail_fails) (use nsp in simp_all)
  moreover have "xs = [] \<or> \<not> is_js_space (last xs)"
    using nsp by (cases xs) simp_all
  then have "rmatch (LazyStar AnyChar # GroupClose # Opt Newline # Star Space # fenceEnd)
               (xs @ ws @ ''```'') True (acc @ [x]) = Some ((acc @ [x]) @ xs)"
    using Cons.prems(2) by (rule Cons.IH)
  ultimately show ?case by simp
qed

lemma fenceRegex_split:
  "fenceRegex =
     [One (Lit CHR 0x60), One (Lit CHR 0x60), One (Lit CHR 0x60), Star Word, Star Space,
      Opt Newline, GroupOpen, LazyStar AnyChar, GroupClose, Opt Newline, Star Space] @ fenceEnd"
  by (simp add: fenceRegex_def fenceEnd_def)

text \<open>
  The whole pattern on an opening fence, a tag of word characters (possibly none),
  white space, the body, white space and the closing fence. With no white space after
  the tag the body must not begin with a word character, or the tag would take it.
\<close>

lemma fence_match:
  assumes tag: "list_all is_word_char tag"
    and ws1: "list_all is_js_space ws1" and ws2: "list_all is_js_space ws2"
    and b: "b \<noteq> []" "\<not> is_js_space (hd b)" "\<not> is_js_space (last b)"
    and sep: "ws1 \<noteq> [] \<or> \<not> is_word_char (hd b)"
  shows "rmatch fenceRegex (''```'' @ tag @ ws1 @ b @ ws2 @ ''```'') False [] = Some b"
proof -
  let ?close = "GroupClose # Opt Newline # Star Space # fenceEnd"
  let ?r2 = "Opt Newline # GroupOpen # LazyStar AnyChar # ?close"
  obtain x xs where bx: "b = x # xs" using b(1) by (cases b) auto
  from b(2) bx have x: "\<not> is_js_space x" "x \<noteq> CHR 0x0A"
    by (auto simp: newline_space)
  have "rmatch (LazyStar AnyChar # ?close) (b @ ws2 @ ''```'') True [] = Some ([] @ b)"
    by (rule lazy_body) (use b ws2 in simp_all)
  with bx x have body: "rmatch (Star Space # ?r2) (b @ ws2 @ ''```'') False [] = Some b"
    by simp
  have "\<forall>y \<in> set ws1. in_class Space y"
    using ws1 by (simp add: list_all_iff)
  then have spaces: "rmatch (Star Space # ?r2) (ws1 @ b @ ws2 @ ''```'') False [] = Some b"
    using body by (rule star_prefix)
  have word: "rmatch (Star Word # Star Space # ?r2) (ws1 @ b @ ws2 @ ''```'') False [] = Some b"
  proof (cases ws1)
    case Nil
    with sep bx have "\<not> is_word_char x" by simp
    with spaces Nil bx show ?thesis by simp
  next
    case (Cons y ys)
    with ws1 have "\<not> is_word_char y" by (simp add: space_not_word)
    with spaces Cons show ?thesis by simp
  qed
  have "\<forall>y \<in> set tag. in_class Word y"
    using tag by (simp add: list_all_iff)
  then have "rmatch (Star Word # Star Space # ?r2) (tag @ ws1 @ b @ ws2 @ ''```'') False [] =
               Some b"
    using word by (rule star_prefix)
  then show ?thesis by (simp add: fenceRegex_split)
qed

text \<open>\<open>trim\<close> removes the white space around a text that has none at its own ends.\<close>

lemma trim_strip:
  assumes "list_all is_js_space pre" and "list_all is_js_space post"
    and "s \<noteq> []" and "\<not> is_js_space (hd s)" and "\<not> is_js_space (last s)"
  shows "trim (pre @ s @ post) = s"
proof -
  have "dropWhile is_js_space (pre @ s @ post) = dropWhile is_js_space (s @ post)"
    using assms(1) by (intro dropWhile_append2) (simp add: list_all_iff)
  also have "\<dots> = s @ post"
    using assms(3,4) by (cases s) simp_all
  finally have front: "dropWhile is_js_space (pre @ s @ post) = s @ post" .
  have "dropWhile is_js_space (rev post @ rev s) = dropWhile is_js_space (rev s)"
    using assms(2) by (intro dropWhile_append2) (simp add: list_all_iff)
  also have "\<dots> = rev s"
    using assms(3,5) by (cases "rev s") (simp_all add: hd_rev [symmetric])
  finally have "dropWhile is_js_space (rev (s @ post)) = rev s" by simp
  with front show ?thesis by (simp add: trim_def)
qed

lemma unfence_fenced:
  assumes pre: "list_all is_js_space pre" and post: "list_all is_js_space post"
    and tag: "list_all is_word_char tag"
    and ws1: "list_all is_js_space ws1" and ws2: "list_all is_js_space ws2"
    and b: "b \<noteq> []" "\<not> is_js_space (hd b)" "\<not> is_js_space (last b)"
    and sep: "ws1 \<noteq> [] \<or> \<not> is_word_char (hd b)"
  shows "unfence (trim (pre @ (''```'' @ tag @ ws1 @ b @ ws2 @ ''```'') @ post)) = b"
proof -
  have "last (''```'' @ tag @ ws1 @ b @ ws2 @ ''```'') = CHR 0x60"
    by (simp add: last_append)
  then have "trim (pre @ (''```'' @ tag @ ws1 @ b @ ws2 @ ''```'') @ post) =
               ''```'' @ tag @ ws1 @ b @ ws2 @ ''```''"
    using pre post by (intro trim_strip) (simp_all add: is_js_space_def)
  moreover have "trim b = b"
    using trim_strip [of "[]" "[]" b] b by simp
  ultimately show ?thesis
    using fence_match [OF tag ws1 ws2 b sep] b(1) by (simp add: unfence_def)
qed

subsection \<open>Configuration fetches\<close>



subsection \<open>The client cache stays fresh\<close>

lemma cache_fresh_cong:
  "sync w' = sync w \<Longrightarrow> cachedAiInstance w' = cachedAiInstance w \<Longrightarrow>
   cachedSettingsKey w' = cachedSettingsKey w \<Longrightarrow> cache_fresh en w' = cache_fresh en w"
  by (simp add: cache_fresh_def split: option.splits)







lemma updateStatus_cache [simp]:
  "cachedAiInstance (snd (updateStatus en w i p)) = cachedAiInstance w"
  "cachedSettingsKey (snd (updateStatus en w i p)) = cachedSettingsKey w"
  by (simp_all add: updateStatus_def Let_def split: option.splits)

lemma sendEvent_cache [simp]:
  "cachedAiInstance (snd (sendEvent en w b)) = cachedAiInstance w"
  "cachedSettingsKey (snd (sendEvent en w b)) = cachedSettingsKey w"
  by (simp_all add: sendEvent_def getSettings_def split: option.splits)

lemma cache_fresh_frame [simp]:
  "cache_fresh en (emit e w) = cache_fresh en w"
  "cache_fresh en (snd (updateStatus en' w i p)) = cache_fresh en w"
  "cache_fresh en (snd (sendEvent en' w b)) = cache_fresh en w"
  "cache_fresh en (snd (resolveApiKey en' s w)) = cache_fresh en w"
  by (rule cache_fresh_cong; simp)+


lemma resolve_byok:
  "mode s = BYOK \<Longrightarrow> resolveApiKey en s w = (Inr (userKey s), w)"
  by (simp add: resolveApiKey_def)







lemma cache_fresh_track [simp]:
  "cache_fresh en (snd (trackScanSuccess en' w u sel ctx)) = cache_fresh en w"
  "cache_fresh en (snd (trackScanNotFound en' w u ctx)) = cache_fresh en w"
  "cache_fresh en (snd (trackScanError en' w u r ctx)) = cache_fresh en w"
  by (simp_all add: trackScanSuccess_def trackScanNotFound_def trackScanError_def)

lemma cache_fresh_clickStep [simp]:
  "cache_fresh en (snd (clickStep en' w i u sel ctx)) = cache_fresh en w"
  by (simp add: clickStep_def Let_def prod.case_eq_if
      split: script_result.splits sum.splits)

lemma cache_fresh_handleScanError [simp]:
  "cache_fresh en (snd (handleScanError en' w i u e h)) = cache_fresh en w"
  by (simp add: handleScanError_def Let_def prod.case_eq_if split: sum.splits)













subsection \<open>The claims\<close>




text \<open>
  C2. The property: whichever way a scan is started, the first status update for the
  tab is the transition to \<open>SCANNING\<close>, made before the page-extraction call and
  before any remote call. The listener of the action click makes that update before it
  calls \<open>executeScan\<close>; the router's \<open>MANUAL_SCAN_REQUEST\<close> calls \<open>executeScan\<close>
  directly. The run below is a router scan of a page with markup: the first update is
  \<open>ANALYZING\<close>, it follows the extraction call, and no update to \<open>SCANNING\<close>
  is made at all.
\<close>

theorem router_scan_never_scanning:
  "trace (snd (messageHandler quiet (fresh byok_settings) MANUAL_SCAN_REQUEST None)) =
     [TabsQuery, ExtractHtml 1,
      UpdateStatus 1 \<lparr>status = ANALYZING, url = Some [], error = None\<rparr>,
      SessionSetTab 1 \<lparr>status = ANALYZING, url = Some [], error = None\<rparr>,
      Broadcast \<lparr>status = ANALYZING, url = Some [], error = None\<rparr>,
      FindAcceptButtonSelector ''<body></body>'', SyncGet,
      GenerateContent ''my-key'' ''Find the accept button.\<newline><body></body>'',
      UpdateStatus 1 \<lparr>status = NOT_FOUND, url = Some [], error = None\<rparr>,
      SessionSetTab 1 \<lparr>status = NOT_FOUND, url = Some [], error = None\<rparr>,
      Broadcast \<lparr>status = NOT_FOUND, url = Some [], error = None\<rparr>,
      SyncGet]"
  by (simp add: scan_defs quiet_def fresh_def byok_settings_def parse_null Let_def)

text \<open>
  C3. The property: in every stored state the error is present exactly when the status
  is \<open>ERROR\<close>. The action click clears the error with its \<open>SCANNING\<close> update; a
  router scan never does, and \<open>updateStatus\<close> merges. Two router scans of one tab, the
  first on a page without markup, the second finding and clicking a button, leave the
  status \<open>SUCCESS\<close> with the error of the first scan still stored.
\<close>

theorem router_scan_keeps_stale_error:
  "tabStates (snd (messageHandler finds_button
              (snd (messageHandler blank_page (fresh byok_settings) MANUAL_SCAN_REQUEST None))
              MANUAL_SCAN_REQUEST None)) 1 =
   Some \<lparr>status = SUCCESS, url = Some [],
         error = Some \<lparr>code = HTML_FETCH_FAILED, message = ''Failed to get page HTML.''\<rparr>\<rparr>"
  by (simp add: scan_defs quiet_def blank_page_def finds_button_def fresh_def
        byok_settings_def parse_accept Let_def)

text \<open>
  C4, as stated, fails: a body that parses but lacks the field, or holds a number in
  it, gives \<open>null\<close> and no error.
\<close>

theorem malformed_response_counterexample:
  "fst (findAcceptButtonSelector (answers ''{}'') (fresh byok_settings) ''<body></body>'') =
     Inr None \<and>
   fst (findAcceptButtonSelector (answers ''{\"selector\": 42}'') (fresh byok_settings)
          ''<body></body>'') = Inr None"
  by (simp add: scan_defs answers_def quiet_def fresh_def byok_settings_def
        parse_empty_object parse_number Let_def)

text \<open>
  C4, amended. Once the client is there and the model has answered with the text
  \<open>t\<close>, the result is decided by the body left after trimming and unfencing: if it
  parses, the result is the \<open>selector\<close> field when that is a non-empty string and
  \<open>null\<close> in every other case (explicit \<open>null\<close>, no field, a field of another
  type, the empty string), never an error; if it does not parse, the call fails with
  \<open>GENERIC_ANALYSIS_ERROR\<close>, or with \<open>API_KEY_INVALID\<close> when the message of the
  parser's error contains \<open>API key not valid\<close>. For the body \<open>{"selector": null}\<close>
  the result is \<open>null\<close>.
\<close>

theorem findAccept_response:
  assumes "getAiInstance en (emit (FindAcceptButtonSelector html) w) = (Inr ai, w1)"
    and "generateContent en (trace w1) (client_key ai)
           (prompt_text en @ ''\<newline>'' @ take 30000 html) = GenerateText t"
  shows "fst (findAcceptButtonSelector en w html) =
     (case JSON_parse (unfence (trim t)) of
        None \<Rightarrow>
          Inl (if str_includes (syntaxErrorMessage en (unfence (trim t))) ''API key not valid''
               then AppError ''Your Gemini API Key is invalid. Please check it in the settings.''
                      API_KEY_INVALID
               else AppError ''An unexpected error occurred during AI analysis.''
                      GENERIC_ANALYSIS_ERROR)
      | Some v \<Rightarrow>
          Inr (case get_prop v (ustr ''selector'') of
                 Some (JStr s) \<Rightarrow> if s = [] then None else Some s
               | _ \<Rightarrow> None))"
  by (simp add: findAccept_text [OF assms] parseResponse_def Let_def analysisError_def
        ApiKeyError_def readSelector_eq
      split: option.splits)

theorem findAccept_response_witness:
  "fst (findAcceptButtonSelector (answers ''{\"selector\": null}'') (fresh byok_settings)
          ''<body></body>'') = Inr None"
proof -
  have b: "generateContent (answers ''{\"selector\": null}'')
             (trace ((emit SyncGet (emit (FindAcceptButtonSelector ''<body></body>'')
               (fresh byok_settings)))
               \<lparr>cachedAiInstance := Some (GoogleGenAI ''my-key''),
                cachedSettingsKey := Some ''BYOK:true:my-key''\<rparr>))
             (client_key (GoogleGenAI ''my-key''))
             (prompt_text (answers ''{\"selector\": null}'') @ ''\<newline>'' @
              take 30000 ''<body></body>'') =
           GenerateText ''{\"selector\": null}''"
    by (simp add: answers_def)
  have c: "JSON_parse (unfence (trim ''{\"selector\": null}'')) =
             Some (JObj [(ustr ''selector'', JNull)])"
    by (simp add: text_defs)
  from findAccept_response [OF byok_client b] c show ?thesis by simp
qed

text \<open>
  C5. When the page-extraction call resolves with absent or empty markup, the scan
  leaves the tab in \<open>ERROR\<close> with code \<open>HTML_FETCH_FAILED\<close>, and
  \<open>findAcceptButtonSelector\<close> is not entered during that scan.
\<close>

theorem scan_without_markup:
  assumes "page_html en (trace w) = ScriptResult r"
    and "r = None \<or> r = Some []"
  shows "tabStates (snd (executeScan en w i u)) i =
           Some \<lparr>status = ERROR,
                 url = (case tabStates w i of Some st \<Rightarrow> url st | None \<Rightarrow> Some []),
                 error = Some \<lparr>code = HTML_FETCH_FAILED,
                               message = ''Failed to get page HTML.''\<rparr>\<rparr> \<and>
         gateway_calls (snd (executeScan en w i u)) = gateway_calls w"
  by (simp add: executeScan_no_markup [OF assms] handleScanError_tab
        handleScanError_gateway htmlFetchFailed_def errorPayloadOf_def)

theorem scan_without_markup_witness:
  "page_html blank_page (trace (fresh no_settings)) = ScriptResult None \<and>
   tabStates (snd (executeScan blank_page (fresh no_settings) 7 ''https://example.org/'')) 7 =
     Some \<lparr>status = ERROR, url = Some [],
           error = Some \<lparr>code = HTML_FETCH_FAILED,
                         message = ''Failed to get page HTML.''\<rparr>\<rparr> \<and>
   gateway_calls (snd (executeScan blank_page (fresh no_settings) 7 ''https://example.org/'')) = 0"
proof -
  have a: "page_html blank_page (trace (fresh no_settings)) = ScriptResult None"
    by (simp add: blank_page_def quiet_def)
  have b: "tabStates (fresh no_settings) 7 = None" "gateway_calls (fresh no_settings) = 0"
    by (simp_all add: fresh_def gateway_calls_def)
  from scan_without_markup [OF a disjI1 [OF refl], of 7 "''https://example.org/''"] a b
  show ?thesis by simp
qed



text \<open>
  C7. Unless the active tier is \<open>FREE_AD_SUPPORTED\<close> and the stored consent flag is
  true, no analytics POST is made: each of the three trackers (success, not found,
  error) and a whole scan leave the number of POSTs on the trace unchanged.
\<close>

theorem analytics_needs_consent:
  assumes "mode (readSettings en (sync w)) \<noteq> FREE_AD_SUPPORTED \<or>
           dataCollectionConsent (sync w) \<noteq> Some True"
  shows "analytics_posts (snd (trackScanSuccess en w u sel ctx)) = analytics_posts w \<and>
         analytics_posts (snd (trackScanNotFound en w u ctx)) = analytics_posts w \<and>
         analytics_posts (snd (trackScanError en w u r ctx)) = analytics_posts w \<and>
         analytics_posts (snd (executeScan en w i u)) = analytics_posts w"
proof -
  from assms have g: "\<not> gated en w"
    by (auto simp: gated_def readSettings_def)
  then show ?thesis
    by (simp add: trackScanSuccess_def trackScanNotFound_def trackScanError_def
          sendEvent_silent executeScan_silent)
qed

theorem analytics_needs_consent_witness:
  "mode (readSettings quiet (sync (fresh byok_settings))) \<noteq> FREE_AD_SUPPORTED \<and>
   analytics_posts (snd (executeScan quiet (fresh byok_settings) 1 ''https://example.org/'')) = 0"
proof -
  have a: "mode (readSettings quiet (sync (fresh byok_settings))) \<noteq> FREE_AD_SUPPORTED"
    by (simp add: readSettings_def fresh_def byok_settings_def)
  have b: "analytics_posts (fresh byok_settings) = 0"
    by (simp add: analytics_posts_def fresh_def)
  from analytics_needs_consent [of quiet "fresh byok_settings", OF disjI1 [OF a]] a b
  show ?thesis by simp
qed

text \<open>
  C8. A response that wraps its body in a markdown code fence is parsed as the body
  alone. The text may be: white space, the opening fence, a tag of word characters
  (\<open>json\<close>, another, or none), white space, the body, white space, the closing fence,
  white space; the body is non-empty and taken without the white space at its ends, and
  where no white space follows the tag it does not begin with a word character. The
  result is then that of parsing the body. The fenced \<open>{"selector":"#x"}\<close> gives
  \<open>#x\<close>.
\<close>

theorem fenced_response:
  assumes "getAiInstance en (emit (FindAcceptButtonSelector html) w) = (Inr ai, w1)"
    and "generateContent en (trace w1) (client_key ai)
           (prompt_text en @ ''\<newline>'' @ take 30000 html) =
         GenerateText (pre @ (''```'' @ tag @ ws1 @ b @ ws2 @ ''```'') @ post)"
    and "list_all is_js_space pre" and "list_all is_js_space post"
    and "list_all is_word_char tag"
    and "list_all is_js_space ws1" and "list_all is_js_space ws2"
    and "b \<noteq> []" and "\<not> is_js_space (hd b)" and "\<not> is_js_space (last b)"
    and "ws1 \<noteq> [] \<or> \<not> is_word_char (hd b)"
  shows "fst (findAcceptButtonSelector en w html) =
     (case JSON_parse b of
        None \<Rightarrow> Inl (analysisError (JsError (syntaxErrorMessage en b)))
      | Some v \<Rightarrow> Inr (readSelector v))"
proof -
  have "parseResponse en (pre @ (''```'' @ tag @ ws1 @ b @ ws2 @ ''```'') @ post) =
          (case JSON_parse b of
             None \<Rightarrow> Inl (JsError (syntaxErrorMessage en b))
           | Some v \<Rightarrow> Inr (readSelector v))"
    unfolding parseResponse_def Let_def unfence_fenced [OF assms(3-11)]
    by (rule refl)
  then show ?thesis
    unfolding findAccept_text [OF assms(1,2)]
    by (simp split: option.splits)
qed

theorem fenced_response_witness:
  "fst (findAcceptButtonSelector
          (answers (''```json'' @ ''\<newline>'' @ ''{\"selector\":\"#x\"}'' @ ''\<newline>```''))
          (fresh byok_settings) ''<body></body>'') = Inr (Some (ustr ''#x''))"
proof -
  let ?b = "''{\"selector\":\"#x\"}''"
  let ?t = "[] @ (''```'' @ ''json'' @ ''\<newline>'' @ ?b @ ''\<newline>'' @ ''```'') @ []"
  have g: "generateContent (answers ?t)
             (trace ((emit SyncGet (emit (FindAcceptButtonSelector ''<body></body>'')
               (fresh byok_settings)))
               \<lparr>cachedAiInstance := Some (GoogleGenAI ''my-key''),
                cachedSettingsKey := Some ''BYOK:true:my-key''\<rparr>))
             (client_key (GoogleGenAI ''my-key''))
             (prompt_text (answers ?t) @ ''\<newline>'' @ take 30000 ''<body></body>'') =
           GenerateText ?t"
    by (simp add: answers_def)
  have sp: "list_all is_js_space []" "list_all is_js_space ''\<newline>''"
    and tg: "list_all is_word_char ''json''"
    by (simp_all add: is_js_space_def is_word_char_def)
  have n: "?b \<noteq> []" and h: "\<not> is_js_space (hd ?b)" and l: "\<not> is_js_space (last ?b)"
    by (simp_all add: is_js_space_def)
  have s: "''\<newline>'' \<noteq> [] \<or> \<not> is_word_char (hd ?b)" by simp
  have p: "JSON_parse ?b = Some (JObj [(ustr ''selector'', JStr (ustr ''#x''))])"
    by (simp add: text_defs)
  from fenced_response [OF byok_client g sp(1) sp(1) tg sp(2) sp(2) n h l s] p
  have "fst (findAcceptButtonSelector (answers ?t) (fresh byok_settings) ''<body></body>'') =
          Inr (Some (ustr ''#x''))"
    by (simp add: readSelector_def)
  then show ?thesis by simp
qed

text \<open>
  C9. \<open>testApiKey\<close> leaves the client cache as it found it, for every candidate key
  and whatever the outcome of the test call: \<open>cachedAiInstance\<close> and
  \<open>cachedSettingsKey\<close> are the same after the call as before.
\<close>

theorem testApiKey_keeps_cache:
  "cachedAiInstance (snd (testApiKey en w k)) = cachedAiInstance w \<and>
   cachedSettingsKey (snd (testApiKey en w k)) = cachedSettingsKey w"
  by (simp add: testApiKey_def Let_def split: generate_result.splits)

text \<open>
  C10. With no operating mode stored (and the storage read succeeding), \<open>getSettings\<close>
  returns the consent-gated free tier \<open>FREE_AD_SUPPORTED\<close> as the mode; the consent
  is the boolean "the stored flag is true", hence false when the flag is unset; and
  \<open>userKey\<close> is undefined when no key is stored.
\<close>

theorem getSettings_defaults:
  assumes "sync_lastError en (trace w) = None"
    and "operatingMode (sync w) = None"
  shows "\<exists>s. fst (getSettings en w) = Inr s \<and>
             mode s = FREE_AD_SUPPORTED \<and>
             consent s = (dataCollectionConsent (sync w) = Some True) \<and>
             (dataCollectionConsent (sync w) = None \<longrightarrow> consent s = False) \<and>
             (apiKey (sync w) = None \<longrightarrow> userKey s = None)"
  using assms by (simp add: getSettings_fst readSettings_def)

theorem getSettings_defaults_witness:
  "sync_lastError quiet (trace (fresh no_settings)) = None \<and>
   operatingMode (sync (fresh no_settings)) = None \<and>
   dataCollectionConsent (sync (fresh no_settings)) = None \<and>
   apiKey (sync (fresh no_settings)) = None \<and>
   fst (getSettings quiet (fresh no_settings)) =
     Inr \<lparr>mode = FREE_AD_SUPPORTED, consent = False, userKey = None\<rparr>"
proof -
  have a: "sync_lastError quiet (trace (fresh no_settings)) = None"
    by (simp add: quiet_def)
  have b: "operatingMode (sync (fresh no_settings)) = None"
    by (simp add: fresh_def no_settings_def)
  have c: "dataCollectionConsent (sync (fresh no_settings)) = None"
    and d: "apiKey (sync (fresh no_settings)) = None"
    by (simp_all add: fresh_def no_settings_def)
  from getSettings_defaults [OF a b] c d a b show ?thesis by auto
qed

end
